theory Spec2Isabelle
  imports Complex_Main
begin

section \<open>JavaScript primitives used by the services\<close>

text \<open>
  JavaScript numbers are modelled as real numbers and timestamps as integer milliseconds.
  \<open>Math.round\<close> rounds to the nearest integer, halves towards plus infinity.
  Strings are lists of characters; the model covers ASCII text.
\<close>

definition Math_round :: "real \<Rightarrow> int" where
  "Math_round x = \<lfloor>x + 1 / 2\<rfloor>"

definition Math_ceil :: "real \<Rightarrow> int" where
  "Math_ceil x = \<lceil>x\<rceil>"

text \<open>\<open>str.includes(sub)\<close>: \<open>sub\<close> occurs in \<open>str\<close> as a contiguous run.\<close>

fun str_includes :: "string \<Rightarrow> string \<Rightarrow> bool" where
  "str_includes [] sub = (sub = [])"
| "str_includes (c # cs) sub = (take (length sub) (c # cs) = sub \<or> str_includes cs sub)"

text \<open>\<open>str.replace(c, '')\<close> for a one-character pattern: only the first occurrence goes.\<close>

fun replaceFirst :: "char \<Rightarrow> string \<Rightarrow> string" where
  "replaceFirst c [] = []"
| "replaceFirst c (x # xs) = (if x = c then xs else x # replaceFirst c xs)"

text \<open>White space as \<open>trim\<close>, \<open>parseInt\<close> and the regular expression class \<open>\s\<close> see it
  (space, tab, line feed, vertical tab, form feed, carriage return).\<close>

definition isWhiteSpace :: "char \<Rightarrow> bool" where
  "isWhiteSpace c = (c \<in> set [CHR '' '', CHR 0x09, CHR 0x0A, CHR 0x0B, CHR 0x0C, CHR 0x0D])"

definition isDigit :: "char \<Rightarrow> bool" where
  "isDigit c = (c \<in> set ''0123456789'')"

definition digitValue :: "char \<Rightarrow> int" where
  "digitValue c = of_char c - 48"

text \<open>\<open>parseInt(str)\<close> in base ten: leading white space, an optional sign, then the longest
  run of digits; \<open>None\<close> stands for \<open>NaN\<close> (no digit found). The hexadecimal prefix
  is not modelled.\<close>

definition parseInt :: "string \<Rightarrow> int option" where
  "parseInt s =
     (let t = dropWhile isWhiteSpace s;
          negative = (t \<noteq> [] \<and> hd t = CHR ''-'');
          u = (if t \<noteq> [] \<and> (hd t = CHR ''-'' \<or> hd t = CHR ''+'') then tl t else t);
          ds = takeWhile isDigit u
      in if ds = [] then None
         else Some ((if negative then - 1 else 1) * foldl (\<lambda>a c. 10 * a + digitValue c) 0 ds))"

section \<open>Risk scorer (predictionService.js)\<close>

record features =
  city :: string
  date :: int
  aqi :: real
  pm25 :: real
  pm10 :: real
  temperature :: real
  humidity :: real
  windSpeed :: real
  precipitation :: real
  admissionsLast7dAvg :: real
  baselineAdmissions :: real
  isFestival :: bool
  festivalMultiplier :: real

text \<open>The source function: one mutable accumulator, updated by a chain of statements.\<close>

definition calculateSurgeProbability :: "features \<Rightarrow> real" where
  "calculateSurgeProbability f =
     (let probability = 20;
          probability = (if aqi f > 150 then probability + 25
                         else if aqi f > 100 then probability + 15
                         else if aqi f > 50 then probability + 5
                         else probability);
          probability = (if temperature f > 35 then probability + 15 else probability);
          probability = (if humidity f > 80 then probability + 10 else probability);
          probability = (if precipitation f > 5 then probability + 5 else probability);
          probability = (if admissionsLast7dAvg f > baselineAdmissions f * 1.2
                         then probability + 20 else probability);
          probability = (if isFestival f then probability + festivalMultiplier f * 10
                         else probability)
      in min 100 (max 0 probability))"




section \<open>Resilient call executor (geminiRetry.js)\<close>

text \<open>
  A thrown error object: \<open>status\<close> and \<open>message\<close> may be undefined (\<open>None\<close>), and
  \<open>errorDetails\<close>, when the provider attaches it, lists typed details.
\<close>

record error_detail =
  detail_type :: string
  retryDelay :: "string option"

record api_error =
  status :: "int option"
  message :: "string option"
  errorDetails :: "error_detail list option"

text \<open>The value of \<open>getRetryDelay\<close>: \<open>null\<close>, \<open>NaN\<close> (the seconds did not parse) or
  a number of milliseconds.\<close>

datatype delay_hint = Null | NaN | Millis int

fun scanDetails :: "error_detail list \<Rightarrow> delay_hint" where
  "scanDetails [] = Null"
| "scanDetails (detail # rest) =
     (case retryDelay detail of
        Some delayStr \<Rightarrow>
          if detail_type detail = ''type.googleapis.com/google.rpc.RetryInfo'' \<and> delayStr \<noteq> []
          then (case parseInt (replaceFirst CHR ''s'' delayStr) of
                  None \<Rightarrow> NaN
                | Some seconds \<Rightarrow> Millis (seconds * 1000))
          else scanDetails rest
      | None \<Rightarrow> scanDetails rest)"

definition getRetryDelay :: "api_error \<Rightarrow> delay_hint" where
  "getRetryDelay error = (case errorDetails error of None \<Rightarrow> Null | Some details \<Rightarrow> scanDetails details)"

text \<open>\<open>!retryDelay\<close>: \<open>null\<close>, \<open>NaN\<close> and \<open>0\<close> are falsy.\<close>

fun hintFalsy :: "delay_hint \<Rightarrow> bool" where
  "hintFalsy Null = True"
| "hintFalsy NaN = True"
| "hintFalsy (Millis n) = (n = 0)"

fun hintValue :: "delay_hint \<Rightarrow> real" where
  "hintValue (Millis n) = real_of_int n"
| "hintValue _ = 0"

definition messageIncludes :: "api_error \<Rightarrow> string \<Rightarrow> bool" where
  "messageIncludes error sub = (case message error of None \<Rightarrow> False | Some m \<Rightarrow> str_includes m sub)"

definition isRateLimit :: "api_error \<Rightarrow> bool" where
  "isRateLimit error =
     (status error = Some 429 \<or> messageIncludes error ''429'' \<or> messageIncludes error ''quota''
      \<or> messageIncludes error ''rate limit'' \<or> messageIncludes error ''Resource exhausted'')"

definition isRetryable :: "api_error \<Rightarrow> bool" where
  "isRetryable error =
     (isRateLimit error
      \<or> (case status error of None \<Rightarrow> False | Some s \<Rightarrow> s \<ge> 500 \<and> s < 600)
      \<or> messageIncludes error ''timeout'' \<or> messageIncludes error ''fetch'')"

text \<open>\<open>maxRetries\<close> counts retries (``Maximum number of retries''), a natural number.\<close>

record retry_options =
  maxRetries :: nat
  initialDelay :: real
  maxDelay :: real
  backoffMultiplier :: real

definition defaultOptions :: retry_options where
  "defaultOptions = \<lparr>maxRetries = 4, initialDelay = 2000, maxDelay = 60000, backoffMultiplier = 2\<rparr>"

text \<open>The delay slept before the next attempt (the body of the catch block after the
  retry decision); \<open>rnd\<close> is the value \<open>Math.random()\<close> returns there.\<close>

definition sleepBeforeRetry :: "api_error \<Rightarrow> real \<Rightarrow> real \<Rightarrow> real \<Rightarrow> real" where
  "sleepBeforeRetry error delay rnd maxDelay' =
     (let hint = getRetryDelay error;
          retryDelay' = (if isRateLimit error \<and> hintFalsy hint then delay * 1.5
                         else if hintFalsy hint then delay
                         else hintValue hint);
          retryDelay' = retryDelay' + rnd * 2000
      in min retryDelay' maxDelay')"

datatype 'a outcome = Returned 'a | Thrown api_error | ThrownUndefined

record 'a retry_run =
  result :: "'a outcome"
  invocations :: nat
  sleeps :: "real list"

text \<open>
  The loop of \<open>withRetry\<close>. The closure is given by the outcome of each of its
  invocations (\<open>apiCall k\<close> is what the call number \<open>k\<close> does, counting from 0) and
  \<open>random k\<close> is the \<open>k\<close>-th value of \<open>Math.random()\<close>. The state carries the
  attempt counter, the current exponential delay, \<open>lastError\<close>, the number of invocations
  made and the delays slept so far.
\<close>

function retryLoop ::
  "(nat \<Rightarrow> api_error + 'a) \<Rightarrow> (nat \<Rightarrow> real) \<Rightarrow> retry_options
    \<Rightarrow> nat \<Rightarrow> real \<Rightarrow> api_error option \<Rightarrow> nat \<Rightarrow> real list \<Rightarrow> 'a retry_run" where
  "retryLoop apiCall random opts attempt delay lastError calls slept =
     (if attempt \<le> maxRetries opts then
        (case apiCall calls of
           Inr v \<Rightarrow> \<lparr>result = Returned v, invocations = calls + 1, sleeps = slept\<rparr>
         | Inl error \<Rightarrow>
             if attempt \<ge> maxRetries opts \<or> \<not> isRetryable error
             then \<lparr>result = Thrown error, invocations = calls + 1, sleeps = slept\<rparr>
             else retryLoop apiCall random opts (attempt + 1)
                    (min (delay * backoffMultiplier opts) (maxDelay opts)) (Some error) (calls + 1)
                    (slept @ [sleepBeforeRetry error delay (random (length slept)) (maxDelay opts)]))
      else \<lparr>result = (case lastError of None \<Rightarrow> ThrownUndefined | Some e \<Rightarrow> Thrown e),
             invocations = calls, sleeps = slept\<rparr>)"
  by pat_completeness auto
termination
  by (relation "measure (\<lambda>(apiCall, random, opts, attempt, delay, lastError, calls, slept).
        Suc (maxRetries opts) - attempt)") auto

declare retryLoop.simps [simp del]

definition withRetry :: "(nat \<Rightarrow> api_error + 'a) \<Rightarrow> (nat \<Rightarrow> real) \<Rightarrow> retry_options \<Rightarrow> 'a retry_run" where
  "withRetry apiCall random opts = retryLoop apiCall random opts 0 (initialDelay opts) None 0 []"

text \<open>The exponential delay in force at attempt \<open>k\<close>, in the words of the specification:
  it starts at \<open>initialDelay\<close> and after each retry is multiplied by \<open>backoffMultiplier\<close>
  and capped at \<open>maxDelay\<close>.\<close>

primrec exponentialDelay :: "retry_options \<Rightarrow> nat \<Rightarrow> real" where
  "exponentialDelay opts 0 = initialDelay opts"
| "exponentialDelay opts (Suc k) = min (exponentialDelay opts k * backoffMultiplier opts) (maxDelay opts)"

text \<open>The sleep in the words of the specification: the provider's hint when the payload
  carries one, otherwise the exponential delay (times 1.5 for a rate limit), plus jitter,
  clamped to \<open>maxDelay\<close>.\<close>

definition sleepReference :: "api_error \<Rightarrow> real \<Rightarrow> real \<Rightarrow> real \<Rightarrow> real" where
  "sleepReference error delay rnd maxDelay' =
     min ((case getRetryDelay error of
             Millis n \<Rightarrow> real_of_int n
           | _ \<Rightarrow> if isRateLimit error then delay * 1.5 else delay) + rnd * 2000) maxDelay'"

text \<open>The sleeps of a run whose first \<open>j\<close> invocations fail.\<close>

definition sleepSchedule :: "(nat \<Rightarrow> api_error + 'a) \<Rightarrow> (nat \<Rightarrow> real) \<Rightarrow> retry_options \<Rightarrow> nat \<Rightarrow> real list" where
  "sleepSchedule apiCall random opts j =
     map (\<lambda>k. sleepBeforeRetry (projl (apiCall k)) (exponentialDelay opts k) (random k) (maxDelay opts))
       [0..<j]"

definition retryInfo :: "string \<Rightarrow> error_detail" where
  "retryInfo d = \<lparr>detail_type = ''type.googleapis.com/google.rpc.RetryInfo'', retryDelay = Some d\<rparr>"

definition serverError :: api_error where
  "serverError = \<lparr>status = Some 503, message = Some ''Service Unavailable'', errorDetails = None\<rparr>"

definition rateLimitError :: api_error where
  "rateLimitError = \<lparr>status = Some 429, message = Some ''Resource exhausted'',
     errorDetails = Some [retryInfo ''51s'']\<rparr>"

definition zeroHintError :: api_error where
  "zeroHintError = \<lparr>status = Some 503, message = Some ''Service Unavailable'',
     errorDetails = Some [retryInfo ''0s'']\<rparr>"

definition badRequestError :: api_error where
  "badRequestError = \<lparr>status = Some 400, message = Some ''Invalid argument'', errorDetails = None\<rparr>"

text \<open>A closure that fails twice (a 503, then a rate limit) and then returns 7.\<close>

definition failTwice :: "nat \<Rightarrow> api_error + nat" where
  "failTwice k = (if k = 0 then Inl serverError else if k = 1 then Inl rateLimitError else Inr 7)"

definition failBadRequest :: "nat \<Rightarrow> api_error + nat" where
  "failBadRequest k = (if k = 0 then Inl serverError else Inl badRequestError)"

definition noJitter :: "nat \<Rightarrow> real" where
  "noJitter k = 0"

section \<open>Stored documents\<close>

text \<open>
  The collections are lists in insertion order. A reading keeps the values it was created
  with (its \<open>raw\<close> copy of the same values is left out).
\<close>

record aqi_reading =
  a_location :: string
  a_timestamp :: int
  a_aqi :: real
  a_pm25 :: real
  a_pm10 :: real
  a_source :: string

record weather_reading =
  w_location :: string
  w_timestamp :: int
  w_temperature :: real
  w_humidity :: real
  w_windSpeed :: real
  w_precipitation :: real

record hospital_stats =
  h_region :: string
  h_date :: int
  admissions :: real

text \<open>A PandemicData document. Every writer of the collection rounds the counts, so they
  are integers.\<close>

record pandemic =
  region :: string
  p_date :: int
  diseaseName :: string
  activeCases :: int
  newCases :: int
  recovered :: int
  deaths :: int
  severity :: string
  transmissionRate :: real
  affectedAgeGroups :: "string list"
  symptoms :: "string list"
  requiredMedicines :: "string list"
  p_notes :: string
  p_source :: string

record active_pandemic =
  ap_diseaseName :: string
  ap_activeCases :: int
  ap_newCases :: int
  ap_severity :: string
  ap_transmissionRate :: real

record prediction =
  pr_region :: string
  pr_date :: int
  surgeProbability :: real
  estimatedPatientCount :: real
  modelVersion :: string
  inputSnapshot :: features
  staff_doctors :: int
  staff_nurses :: int
  staff_supportStaff :: int
  staff_notes :: string
  supply_oxygen :: int
  supply_medicines :: "string list"
  supply_ppe :: int
  supply_notes :: string
  topFactors :: "(string \<times> real) list"
  suggestedMedicines :: "string list"
  suggestedDiseases :: "string list"
  activePandemics :: "active_pandemic list"
  weatherImpact :: string
  aqiImpact :: string

text \<open>The database and the number of requests sent to the data providers so far.\<close>

record world =
  aqiReadings :: "aqi_reading list"
  weatherReadings :: "weather_reading list"
  hospitalStats :: "hospital_stats list"
  pandemicData :: "pandemic list"
  predictions :: "prediction list"
  providerCalls :: nat

section \<open>The environment: configuration and external services\<close>

text \<open>An HTTP exchange: \<open>fetch\<close> rejects, or yields a response with its \<open>ok\<close> flag and
  the body \<open>response.json()\<close> parses (\<open>None\<close> when parsing rejects).\<close>

datatype 'b http_reply = NetworkError | Reply bool "'b option"

datatype aqi_request = CityEndpoint string string string | NearestStation real real

record pollution_data =
  aqius :: "real option"
  aqicn :: "real option"
  pol_pm25 :: "real option"
  pol_pm10 :: "real option"

record air_visual_body =
  av_status :: string
  av_pollution :: "pollution_data option"

record weather_body =
  cod :: "int option"
  main_temp :: "real option"
  main_humidity :: "real option"
  wind_speed :: "real option"
  rain_1h :: "real option"
  rain_3h :: "real option"

text \<open>A numeric field of a reply of the reasoning service: absent, a number, or a value
  that is truthy but not a number.\<close>

datatype js_number = Missing | Num real | NotNumeric

record detected_pandemic =
  d_diseaseName :: string
  d_activeCases :: js_number
  d_newCasesLast24h :: js_number
  d_severity :: "string option"
  d_transmissionRate :: js_number
  d_affectedAgeGroups :: "string list option"
  d_symptoms :: "string list option"
  d_requiredMedicines :: "string list option"
  d_notes :: "string option"

record gemini_analysis =
  detectedPandemics :: "detected_pandemic list option"
  analysis :: "string option"

record agent_response =
  staffingPlan :: "string option"
  supplyPlan :: "string option"
  agent_weatherImpact :: "string option"
  agent_aqiImpact :: "string option"

text \<open>
  The providers answer each request; the answer may depend on how many requests were sent
  before. The calls to the reasoning service are given by what they return:
  \<open>runOperationsAgent\<close> (\<open>None\<close> when it throws), \<open>getDiseasesForConditions\<close>,
  \<open>getMedicinesForDiseases\<close> and \<open>detectPandemicsWithGemini\<close> (\<open>None\<close> for null).
  \<open>parseFloat\<close> is the JavaScript builtin (\<open>None\<close> for \<open>NaN\<close>).
\<close>

record environment =
  AIR_VISUAL_API_KEY :: "string option"
  WEATHER_API_KEY :: "string option"
  airVisual :: "nat \<Rightarrow> aqi_request \<Rightarrow> air_visual_body http_reply"
  openWeatherMap :: "nat \<Rightarrow> string \<Rightarrow> weather_body http_reply"
  runOperationsAgent :: "agent_response option"
  getDiseasesForConditions :: "string list"
  getMedicinesForDiseases :: "string list"
  detectPandemicsWithGemini :: "gemini_analysis option"
  GEMINI_MODEL :: string
  parseFloat :: "string \<Rightarrow> real option"

datatype service_error =
    CityNameRequired
  | AirVisualKeyNotConfigured
  | FailedToFetchAqi
  | NoAqiData
  | WeatherKeyNotConfigured
  | FailedToFetchWeather
  | WeatherRequired
  | InvalidDate
  | AgentFailed
  | ValidationError

text \<open>Truthiness: an absent value, the empty string and 0 are falsy.\<close>

definition truthyString :: "string option \<Rightarrow> bool" where
  "truthyString s = (case s of None \<Rightarrow> False | Some t \<Rightarrow> t \<noteq> [])"

definition truthyNumber :: "real option \<Rightarrow> bool" where
  "truthyNumber x = (case x of None \<Rightarrow> False | Some v \<Rightarrow> v \<noteq> 0)"

text \<open>\<open>a || d\<close> for a number that may be absent.\<close>

definition numberOr :: "real option \<Rightarrow> real \<Rightarrow> real" where
  "numberOr x d = (case x of None \<Rightarrow> d | Some v \<Rightarrow> if v \<noteq> 0 then v else d)"

definition stringOr :: "string option \<Rightarrow> string \<Rightarrow> string" where
  "stringOr s d = (case s of None \<Rightarrow> d | Some t \<Rightarrow> if t \<noteq> [] then t else d)"

definition trim :: "string \<Rightarrow> string" where
  "trim s = rev (dropWhile isWhiteSpace (rev (dropWhile isWhiteSpace s)))"

text \<open>\<open>str.split(c)\<close> for a one-character separator.\<close>

fun splitOn :: "char \<Rightarrow> string \<Rightarrow> string list" where
  "splitOn c [] = [[]]"
| "splitOn c (x # xs) =
     (if x = c then [] # splitOn c xs
      else (case splitOn c xs of [] \<Rightarrow> [[x]] | p # ps \<Rightarrow> (x # p) # ps))"

text \<open>\<open>[...new Set(xs)]\<close>: the first occurrence of each element, in order.\<close>

definition uniqueInOrder :: "'a list \<Rightarrow> 'a list" where
  "uniqueInOrder xs = rev (remdups (rev xs))"

section \<open>Reading store and freshness cache (dataService.js)\<close>

text \<open>\<open>findOne(...).sort({timestamp: -1})\<close>: the document with the greatest timestamp.\<close>

fun newest :: "('r \<Rightarrow> int) \<Rightarrow> 'r list \<Rightarrow> 'r option" where
  "newest ts [] = None"
| "newest ts (r # rs) =
     (case newest ts rs of None \<Rightarrow> Some r | Some b \<Rightarrow> if ts b > ts r then Some b else Some r)"

definition findLatestAqi :: "string \<Rightarrow> world \<Rightarrow> aqi_reading option" where
  "findLatestAqi location w = newest a_timestamp (filter (\<lambda>r. a_location r = location) (aqiReadings w))"

definition findLatestWeather :: "string \<Rightarrow> world \<Rightarrow> weather_reading option" where
  "findLatestWeather location w =
     newest w_timestamp (filter (\<lambda>r. w_location r = location) (weatherReadings w))"

definition getLatestAqi :: "string \<Rightarrow> world \<Rightarrow> aqi_reading option" where
  "getLatestAqi cityName w = (if cityName = [] then None else findLatestAqi cityName w)"

definition getLatestWeather :: "string \<Rightarrow> world \<Rightarrow> weather_reading option" where
  "getLatestWeather cityName w = (if cityName = [] then None else findLatestWeather cityName w)"

definition ageHours :: "int \<Rightarrow> int \<Rightarrow> real" where
  "ageHours now timestamp = real_of_int (now - timestamp) / (1000 * 60 * 60)"

record coordinates =
  c_city :: string
  c_state :: string
  c_country :: string
  lat :: "real option"
  lon :: "real option"

definition mapped :: "string \<Rightarrow> string \<Rightarrow> real \<Rightarrow> real \<Rightarrow> coordinates" where
  "mapped name st la lo = \<lparr>c_city = name, c_state = st, c_country = ''India'', lat = Some la, lon = Some lo\<rparr>"

definition cityStateMap :: "(string \<times> coordinates) list" where
  "cityStateMap =
     [(''Delhi'', mapped ''Delhi'' ''Delhi'' 28.6139 77.2090),
      (''Mumbai'', mapped ''Mumbai'' ''Maharashtra'' 19.0760 72.8777),
      (''Bangalore'', mapped ''Bangalore'' ''Karnataka'' 12.9716 77.5946),
      (''Kolkata'', mapped ''Kolkata'' ''West Bengal'' 22.5726 88.3639),
      (''Chennai'', mapped ''Chennai'' ''Tamil Nadu'' 13.0827 80.2707),
      (''Hyderabad'', mapped ''Hyderabad'' ''Telangana'' 17.3850 78.4867),
      (''Pune'', mapped ''Pune'' ''Maharashtra'' 18.5204 73.8567),
      (''Ahmedabad'', mapped ''Ahmedabad'' ''Gujarat'' 23.0225 72.5714),
      (''Jaipur'', mapped ''Jaipur'' ''Rajasthan'' 26.9124 75.7873),
      (''Lucknow'', mapped ''Lucknow'' ''Uttar Pradesh'' 26.8467 80.9462)]"

definition getCityStateMapping :: "string \<Rightarrow> coordinates option" where
  "getCityStateMapping cityName = map_of cityStateMap (trim cityName)"

definition getCityCoordinates :: "environment \<Rightarrow> string \<Rightarrow> string \<Rightarrow> string \<Rightarrow> coordinates" where
  "getCityCoordinates env cityName state country =
     (case getCityStateMapping cityName of
        Some m \<Rightarrow> m
      | None \<Rightarrow>
          let parts = map trim (splitOn CHR '','' cityName);
              direct = \<lparr>c_city = cityName, c_state = state, c_country = country,
                         lat = None, lon = None\<rparr>
          in if CHR '','' \<in> set cityName then
               (if length parts \<ge> 3 \<and> parseFloat env (parts ! 1) \<noteq> None
                then \<lparr>c_city = parts ! 0, c_state = state, c_country = country,
                       lat = parseFloat env (parts ! 1), lon = parseFloat env (parts ! 2)\<rparr>
                else if length parts \<ge> 2
                then \<lparr>c_city = parts ! 0,
                       c_state = (if parts ! 1 \<noteq> [] then parts ! 1 else state),
                       c_country = (if length parts \<ge> 3 \<and> parts ! 2 \<noteq> [] then parts ! 2 else country),
                       lat = None, lon = None\<rparr>
                else direct)
             else direct)"

definition hasCoordinates :: "coordinates \<Rightarrow> bool" where
  "hasCoordinates coords = (truthyNumber (lat coords) \<and> truthyNumber (lon coords))"

definition nearestStation :: "coordinates \<Rightarrow> aqi_request" where
  "nearestStation coords = NearestStation (numberOr (lat coords) 0) (numberOr (lon coords) 0)"

definition cityEndpoint :: "coordinates \<Rightarrow> aqi_request" where
  "cityEndpoint coords = CityEndpoint (c_city coords) (c_state coords) (c_country coords)"

text \<open>One \<open>fetch\<close> to the air quality provider: the request is counted, then answered.\<close>

definition fetchAirVisual :: "environment \<Rightarrow> aqi_request \<Rightarrow> world \<Rightarrow> air_visual_body http_reply \<times> world" where
  "fetchAirVisual env request w =
     (airVisual env (providerCalls w) request, w\<lparr>providerCalls := providerCalls w + 1\<rparr>)"

definition fetchOpenWeatherMap :: "environment \<Rightarrow> string \<Rightarrow> world \<Rightarrow> weather_body http_reply \<times> world" where
  "fetchOpenWeatherMap env cityName w =
     (openWeatherMap env (providerCalls w) cityName, w\<lparr>providerCalls := providerCalls w + 1\<rparr>)"

text \<open>
  The three request strategies of \<open>fetchAndStoreAqi\<close>. The result is the last response
  (its \<open>ok\<close> flag and parsed body), or \<open>None\<close> when \<open>fetch\<close> or \<open>response.json()\<close>
  rejected.
\<close>

definition requestAirVisual ::
  "environment \<Rightarrow> coordinates \<Rightarrow> world \<Rightarrow> (bool \<times> air_visual_body) option \<times> world" where
  "requestAirVisual env coords w =
     (if c_state coords \<noteq> [] \<and> c_country coords \<noteq> [] then
        (case fetchAirVisual env (cityEndpoint coords) w of
           (NetworkError, w1) \<Rightarrow> (None, w1)
         | (Reply ok None, w1) \<Rightarrow> (None, w1)
         | (Reply ok (Some responseData), w1) \<Rightarrow>
             if \<not> ok \<and> hasCoordinates coords then
               (case fetchAirVisual env (nearestStation coords) w1 of
                  (NetworkError, w2) \<Rightarrow> (None, w2)
                | (Reply ok2 None, w2) \<Rightarrow> (None, w2)
                | (Reply ok2 (Some responseData2), w2) \<Rightarrow> (Some (ok2, responseData2), w2))
             else (Some (ok, responseData), w1))
      else if hasCoordinates coords then
        (case fetchAirVisual env (nearestStation coords) w of
           (NetworkError, w1) \<Rightarrow> (None, w1)
         | (Reply ok None, w1) \<Rightarrow> (None, w1)
         | (Reply ok (Some responseData), w1) \<Rightarrow> (Some (ok, responseData), w1))
      else
        (case fetchAirVisual env (cityEndpoint coords) w of
           (NetworkError, w1) \<Rightarrow> (None, w1)
         | (Reply ok None, w1) \<Rightarrow> (None, w1)
         | (Reply ok (Some responseData), w1) \<Rightarrow> (Some (ok, responseData), w1)))"

text \<open>The values read off a successful response: \<open>aqi\<close>, \<open>pm25\<close>, \<open>pm10\<close>.\<close>

definition aqiDataOf :: "pollution_data \<Rightarrow> real \<times> real \<times> real" where
  "aqiDataOf pollution =
     (let aqi' = numberOr (aqius pollution) (numberOr (aqicn pollution) 50);
          pm25' = numberOr (pol_pm25 pollution) (real_of_int (Math_round (aqi' * 0.6)));
          pm10' = numberOr (pol_pm10 pollution) (real_of_int (Math_round (aqi' * 0.8)))
      in (aqi', pm25', pm10'))"

definition cachedAqi :: "int \<Rightarrow> string \<Rightarrow> world \<Rightarrow> aqi_reading option" where
  "cachedAqi now location w =
     (case findLatestAqi location w of
        None \<Rightarrow> None
      | Some recentReading \<Rightarrow>
          if ageHours now (a_timestamp recentReading) < 6 then Some recentReading else None)"

definition fetchAndStoreAqi ::
  "environment \<Rightarrow> int \<Rightarrow> string \<Rightarrow> string \<Rightarrow> string \<Rightarrow> bool \<Rightarrow> world
     \<Rightarrow> (service_error + aqi_reading) \<times> world" where
  "fetchAndStoreAqi env now cityName state country forceFetch w =
     (if cityName = [] then (Inl CityNameRequired, w)
      else case (if forceFetch then None else cachedAqi now cityName w) of
        Some recentReading \<Rightarrow> (Inr recentReading, w)
      | None \<Rightarrow>
          if \<not> truthyString (AIR_VISUAL_API_KEY env) then (Inl AirVisualKeyNotConfigured, w)
          else
            (case requestAirVisual env (getCityCoordinates env cityName state country) w of
               (None, w1) \<Rightarrow> (Inl FailedToFetchAqi, w1)
             | (Some (ok, responseData), w1) \<Rightarrow>
                 if ok \<and> av_status responseData = ''success'' then
                   (case av_pollution responseData of
                      None \<Rightarrow> (Inl NoAqiData, w1)
                    | Some pollution \<Rightarrow>
                        (case aqiDataOf pollution of (aqi', pm25', pm10') \<Rightarrow>
                           let reading = \<lparr>a_location = cityName, a_timestamp = now, a_aqi = aqi',
                                 a_pm25 = pm25', a_pm10 = pm10', a_source = ''airvisual''\<rparr>
                           in (Inr reading, w1\<lparr>aqiReadings := aqiReadings w1 @ [reading]\<rparr>)))
                 else (Inl FailedToFetchAqi, w1)))"

definition cachedWeather :: "int \<Rightarrow> string \<Rightarrow> world \<Rightarrow> weather_reading option" where
  "cachedWeather now location w =
     (case findLatestWeather location w of
        None \<Rightarrow> None
      | Some recentReading \<Rightarrow>
          if ageHours now (w_timestamp recentReading) < 6 then Some recentReading else None)"

text \<open>What the weather adapter makes of a response body, or \<open>None\<close> when it throws.\<close>

definition weatherDataOf :: "weather_body \<Rightarrow> (real \<times> real \<times> real \<times> real) option" where
  "weatherDataOf data =
     (if (case cod data of None \<Rightarrow> False | Some c \<Rightarrow> c \<noteq> 0 \<and> c \<noteq> 200) then None
      else case (main_temp data, main_humidity data) of
        (Some temp, Some humidity') \<Rightarrow>
          let windSpeedKmh = numberOr (wind_speed data) 0 * 3.6;
              precipitation' = numberOr (rain_1h data) (numberOr (rain_3h data) 0)
          in Some (real_of_int (Math_round (temp * 10)) / 10,
                   real_of_int (Math_round humidity'),
                   real_of_int (Math_round (windSpeedKmh * 10)) / 10,
                   real_of_int (Math_round (precipitation' * 10)) / 10)
      | _ \<Rightarrow> None)"

definition fetchAndStoreWeather ::
  "environment \<Rightarrow> int \<Rightarrow> string \<Rightarrow> bool \<Rightarrow> world \<Rightarrow> (service_error + weather_reading) \<times> world" where
  "fetchAndStoreWeather env now cityName forceFetch w =
     (if cityName = [] then (Inl CityNameRequired, w)
      else case (if forceFetch then None else cachedWeather now cityName w) of
        Some recentReading \<Rightarrow> (Inr recentReading, w)
      | None \<Rightarrow>
          if \<not> truthyString (WEATHER_API_KEY env) then (Inl WeatherKeyNotConfigured, w)
          else
            (case fetchOpenWeatherMap env cityName w of
               (NetworkError, w1) \<Rightarrow> (Inl FailedToFetchWeather, w1)
             | (Reply ok body, w1) \<Rightarrow>
                 if ok then
                   (case body of
                      None \<Rightarrow> (Inl FailedToFetchWeather, w1)
                    | Some data \<Rightarrow>
                        (case weatherDataOf data of
                           None \<Rightarrow> (Inl FailedToFetchWeather, w1)
                         | Some (temperature', humidity', windSpeed', precipitation') \<Rightarrow>
                             let reading = \<lparr>w_location = cityName, w_timestamp = now,
                                   w_temperature = temperature', w_humidity = humidity',
                                   w_windSpeed = windSpeed', w_precipitation = precipitation'\<rparr>
                             in (Inr reading, w1\<lparr>weatherReadings := weatherReadings w1 @ [reading]\<rparr>)))
                 else (Inl FailedToFetchWeather, w1)))"

section \<open>Concrete environments and databases\<close>

definition emptyWorld :: world where
  "emptyWorld = \<lparr>aqiReadings = [], weatherReadings = [], hospitalStats = [], pandemicData = [],
     predictions = [], providerCalls = 0\<rparr>"

definition moderateAir :: air_visual_body where
  "moderateAir = \<lparr>av_status = ''success'',
     av_pollution = Some \<lparr>aqius = Some 180, aqicn = Some 90, pol_pm25 = None, pol_pm10 = None\<rparr>\<rparr>"

definition mildWeather :: weather_body where
  "mildWeather = \<lparr>cod = Some 200, main_temp = Some 22, main_humidity = Some 40,
     wind_speed = Some 2, rain_1h = None, rain_3h = None\<rparr>"

definition influenza :: "real \<Rightarrow> detected_pandemic" where
  "influenza cases = \<lparr>d_diseaseName = ''Influenza'', d_activeCases = Num cases,
     d_newCasesLast24h = Num 5, d_severity = Some ''moderate'', d_transmissionRate = Num 1.4,
     d_affectedAgeGroups = None, d_symptoms = None,
     d_requiredMedicines = Some [''Oseltamivir''], d_notes = None\<rparr>"

text \<open>Every service is configured and answers.\<close>

definition liveEnv :: environment where
  "liveEnv = \<lparr>AIR_VISUAL_API_KEY = Some ''av-key'', WEATHER_API_KEY = Some ''ow-key'',
     airVisual = (\<lambda>n request. Reply True (Some moderateAir)),
     openWeatherMap = (\<lambda>n cityName. Reply True (Some mildWeather)),
     runOperationsAgent = Some \<lparr>staffingPlan = Some ''Add one shift'', supplyPlan = None,
        agent_weatherImpact = None, agent_aqiImpact = Some ''Unhealthy air''\<rparr>,
     getDiseasesForConditions = [''Asthma''],
     getMedicinesForDiseases = [''Albuterol Sulfate''],
     detectPandemicsWithGemini = Some \<lparr>detectedPandemics = Some [influenza 50], analysis = None\<rparr>,
     GEMINI_MODEL = ''gemini-2.0-flash'',
     parseFloat = (\<lambda>s. None)\<rparr>"

text \<open>No provider key is configured.\<close>

definition unconfiguredEnv :: environment where
  "unconfiguredEnv = liveEnv\<lparr>AIR_VISUAL_API_KEY := None, WEATHER_API_KEY := None\<rparr>"

text \<open>The providers are configured but every request to them fails.\<close>

definition providersDownEnv :: environment where
  "providersDownEnv = liveEnv\<lparr>airVisual := (\<lambda>n request. NetworkError),
     openWeatherMap := (\<lambda>n cityName. NetworkError)\<rparr>"

text \<open>Only the air quality provider fails.\<close>

definition airVisualDownEnv :: environment where
  "airVisualDownEnv = liveEnv\<lparr>airVisual := (\<lambda>n request. NetworkError)\<rparr>"

definition delhiAqiReading :: aqi_reading where
  "delhiAqiReading = \<lparr>a_location = ''Delhi'', a_timestamp = 0, a_aqi = 180, a_pm25 = 108,
     a_pm10 = 144, a_source = ''airvisual''\<rparr>"

definition delhiWeatherReading :: weather_reading where
  "delhiWeatherReading = \<lparr>w_location = ''Delhi'', w_timestamp = 0, w_temperature = 22,
     w_humidity = 40, w_windSpeed = 7.2, w_precipitation = 0\<rparr>"

text \<open>A database holding one reading of each kind for Delhi, taken at time 0.\<close>

definition delhiWorld :: world where
  "delhiWorld = emptyWorld\<lparr>aqiReadings := [delhiAqiReading], weatherReadings := [delhiWeatherReading]\<rparr>"

definition threeHours :: int where
  "threeHours = 3 * 60 * 60 * 1000"

section \<open>Outbreak reconciler (pandemicService.js)\<close>

definition dayMs :: int where
  "dayMs = 24 * 60 * 60 * 1000"

text \<open>A stable sort by a ``comes first'' relation, as the database sorts a result.\<close>

fun insertBy :: "('a \<Rightarrow> 'a \<Rightarrow> bool) \<Rightarrow> 'a \<Rightarrow> 'a list \<Rightarrow> 'a list" where
  "insertBy first x [] = [x]"
| "insertBy first x (y # ys) = (if first x y then x # y # ys else y # insertBy first x ys)"

definition sortBy :: "('a \<Rightarrow> 'a \<Rightarrow> bool) \<Rightarrow> 'a list \<Rightarrow> 'a list" where
  "sortBy first xs = foldr (insertBy first) xs []"

text \<open>\<open>sort({date: -1, activeCases: -1})\<close>.\<close>

definition latestLargestFirst :: "pandemic \<Rightarrow> pandemic \<Rightarrow> bool" where
  "latestLargestFirst a b = (p_date a > p_date b \<or> (p_date a = p_date b \<and> activeCases a \<ge> activeCases b))"

text \<open>\<open>Map.set\<close> on a map kept in insertion order.\<close>

fun mapSet :: "string \<Rightarrow> pandemic \<Rightarrow> (string \<times> pandemic) list \<Rightarrow> (string \<times> pandemic) list" where
  "mapSet k v [] = [(k, v)]"
| "mapSet k v ((k', v') # rest) = (if k' = k then (k, v) # rest else (k', v') # mapSet k v rest)"

definition groupByDisease :: "(string \<times> pandemic) list \<Rightarrow> pandemic \<Rightarrow> (string \<times> pandemic) list" where
  "groupByDisease diseaseMap p =
     (case map_of diseaseMap (diseaseName p) of
        None \<Rightarrow> mapSet (diseaseName p) p diseaseMap
      | Some q \<Rightarrow> if p_date q < p_date p then mapSet (diseaseName p) p diseaseMap else diseaseMap)"

definition significantSeverity :: "string \<Rightarrow> bool" where
  "significantSeverity s = (s \<in> set [''moderate'', ''high'', ''critical''])"

text \<open>The query of \<open>getActivePandemics\<close>; its start date, \<open>days\<close> calendar days before
  now, is taken as \<open>days\<close> times 24 hours.\<close>

definition activeQuery :: "string \<Rightarrow> int \<Rightarrow> int \<Rightarrow> pandemic \<Rightarrow> bool" where
  "activeQuery region' days now p =
     (region p = region' \<and> p_date p \<ge> now - days * dayMs \<and> activeCases p > 0
      \<and> significantSeverity (severity p))"

definition getActivePandemics :: "string \<Rightarrow> int \<Rightarrow> int \<Rightarrow> world \<Rightarrow> pandemic list" where
  "getActivePandemics region' days now w =
     map snd (foldl groupByDisease []
       (sortBy latestLargestFirst (filter (activeQuery region' days now) (pandemicData w))))"

definition getTotalActiveCases :: "string \<Rightarrow> int \<Rightarrow> world \<Rightarrow> int" where
  "getTotalActiveCases region' now w = foldl (\<lambda>sum p. sum + activeCases p) 0 (getActivePandemics region' 7 now w)"

definition getRequiredMedicinesFromPandemics :: "string \<Rightarrow> int \<Rightarrow> world \<Rightarrow> string list" where
  "getRequiredMedicinesFromPandemics region' now w =
     uniqueInOrder (concat (map requiredMedicines (getActivePandemics region' 7 now w)))"

text \<open>
  Saving a PandemicData document runs the schema's validators: \<open>region\<close> and
  \<open>diseaseName\<close> are required, \<open>severity\<close> is one of the enumeration and
  \<open>transmissionRate\<close> lies between 0 and 10. A numeric field that is \<open>NaN\<close> does not cast;
  such a document is \<open>None\<close> here.
\<close>

definition validPandemic :: "pandemic \<Rightarrow> bool" where
  "validPandemic p =
     (region p \<noteq> [] \<and> diseaseName p \<noteq> []
      \<and> severity p \<in> set [''low'', ''moderate'', ''high'', ''critical'']
      \<and> 0 \<le> transmissionRate p \<and> transmissionRate p \<le> 10)"

definition createPandemicData :: "pandemic option \<Rightarrow> world \<Rightarrow> (service_error + pandemic) \<times> world" where
  "createPandemicData data w =
     (case data of
        None \<Rightarrow> (Inl ValidationError, w)
      | Some p \<Rightarrow> if validPandemic p then (Inr p, w\<lparr>pandemicData := pandemicData w @ [p]\<rparr>)
                  else (Inl ValidationError, w))"

text \<open>\<open>x || d\<close> used as a number: \<open>None\<close> is \<open>NaN\<close>.\<close>

definition numericOr :: "js_number \<Rightarrow> real \<Rightarrow> real option" where
  "numericOr x d = (case x of Missing \<Rightarrow> Some d | Num v \<Rightarrow> Some (if v \<noteq> 0 then v else d) | NotNumeric \<Rightarrow> None)"

text \<open>The default note; the source also writes the risk score into it.\<close>

definition defaultNotes :: "gemini_analysis \<Rightarrow> string" where
  "defaultNotes geminiAnalysis =
     ''AI-detected based on surge probability and environmental conditions. ''
       @ stringOr (analysis geminiAnalysis) []"

text \<open>The document built for a disease with no record in the last 24 hours.\<close>

definition newPandemic :: "string \<Rightarrow> int \<Rightarrow> real \<Rightarrow> gemini_analysis \<Rightarrow> detected_pandemic \<Rightarrow> pandemic option" where
  "newPandemic region' now surge geminiAnalysis p =
     (case (numericOr (d_activeCases p) (50 * (surge / 100)),
            numericOr (d_newCasesLast24h p) (10 * (surge / 100)),
            numericOr (d_activeCases p) 50,
            numericOr (d_transmissionRate p) ((surge / 100) * 3)) of
        (Some active, Some new, Some base, Some rate) \<Rightarrow>
          Some \<lparr>region = region', p_date = now, diseaseName = d_diseaseName p,
                activeCases = max 0 (Math_round active),
                newCases = max 0 (Math_round new),
                recovered = Math_round (base * 0.2),
                deaths = Math_round (base * 0.01),
                severity = stringOr (d_severity p)
                  (if surge > 70 then ''high'' else if surge > 50 then ''moderate'' else ''low''),
                transmissionRate = min 10 (max 0 rate),
                affectedAgeGroups = (case d_affectedAgeGroups p of Some g \<Rightarrow> g | None \<Rightarrow> [''adults'', ''elderly'']),
                symptoms = (case d_symptoms p of Some s \<Rightarrow> s | None \<Rightarrow> [''fever'', ''cough'', ''fatigue'']),
                requiredMedicines = (case d_requiredMedicines p of Some m \<Rightarrow> m | None \<Rightarrow> []),
                p_notes = stringOr (d_notes p) (defaultNotes geminiAnalysis),
                p_source = ''gemini-ai''\<rparr>
      | _ \<Rightarrow> None)"

text \<open>The update of a record found in the last 24 hours.\<close>

definition mergedPandemic :: "pandemic \<Rightarrow> detected_pandemic \<Rightarrow> pandemic option" where
  "mergedPandemic existing p =
     (case (numericOr (d_activeCases p) (real_of_int (activeCases existing)),
            numericOr (d_newCasesLast24h p) (real_of_int (newCases existing)),
            numericOr (d_transmissionRate p) (transmissionRate existing)) of
        (Some active, Some new, Some rate) \<Rightarrow>
          Some (existing\<lparr>activeCases := max (activeCases existing) (Math_round active),
                  newCases := max (newCases existing) (Math_round new),
                  severity := stringOr (d_severity p) (severity existing),
                  transmissionRate := rate,
                  requiredMedicines :=
                    (case d_requiredMedicines p of
                       Some ms \<Rightarrow> if ms \<noteq> [] then uniqueInOrder (requiredMedicines existing @ ms)
                                  else requiredMedicines existing
                     | None \<Rightarrow> requiredMedicines existing)\<rparr>)
      | _ \<Rightarrow> None)"

fun findIndex :: "('a \<Rightarrow> bool) \<Rightarrow> 'a list \<Rightarrow> nat option" where
  "findIndex P [] = None"
| "findIndex P (x # xs) = (if P x then Some 0 else map_option Suc (findIndex P xs))"

text \<open>\<open>PandemicData.findOne({region, diseaseName, date: {$gte: now - 24h}})\<close>: the position
  of the first such document.\<close>

definition findRecent :: "string \<Rightarrow> string \<Rightarrow> int \<Rightarrow> world \<Rightarrow> nat option" where
  "findRecent region' name now w =
     findIndex (\<lambda>q. region q = region' \<and> diseaseName q = name \<and> p_date q \<ge> now - dayMs) (pandemicData w)"

text \<open>One pass of the loop body: the record created, if any, or the error thrown by a save.\<close>

definition reconcile ::
  "string \<Rightarrow> int \<Rightarrow> real \<Rightarrow> gemini_analysis \<Rightarrow> detected_pandemic \<Rightarrow> world
     \<Rightarrow> (service_error + pandemic option) \<times> world" where
  "reconcile region' now surge geminiAnalysis p w =
     (case findRecent region' (d_diseaseName p) now w of
        None \<Rightarrow>
          (case createPandemicData (newPandemic region' now surge geminiAnalysis p) w of
             (Inl e, w1) \<Rightarrow> (Inl e, w1)
           | (Inr pandemicData', w1) \<Rightarrow> (Inr (Some pandemicData'), w1))
      | Some i \<Rightarrow>
          (case mergedPandemic (pandemicData w ! i) p of
             None \<Rightarrow> (Inl ValidationError, w)
           | Some existing \<Rightarrow>
               if validPandemic existing
               then (Inr None, w\<lparr>pandemicData := (pandemicData w)[i := existing]\<rparr>)
               else (Inl ValidationError, w)))"

fun reconcileAll ::
  "string \<Rightarrow> int \<Rightarrow> real \<Rightarrow> gemini_analysis \<Rightarrow> detected_pandemic list \<Rightarrow> pandemic list \<Rightarrow> world
     \<Rightarrow> (service_error + pandemic list) \<times> world" where
  "reconcileAll region' now surge geminiAnalysis [] pandemicRecords w = (Inr pandemicRecords, w)"
| "reconcileAll region' now surge geminiAnalysis (p # ps) pandemicRecords w =
     (case reconcile region' now surge geminiAnalysis p w of
        (Inl e, w1) \<Rightarrow> (Inl e, w1)
      | (Inr None, w1) \<Rightarrow> reconcileAll region' now surge geminiAnalysis ps pandemicRecords w1
      | (Inr (Some created), w1) \<Rightarrow>
          reconcileAll region' now surge geminiAnalysis ps (pandemicRecords @ [created]) w1)"

text \<open>With no usable detection, old fallback records are cleared unless recent real data exists.\<close>

definition clearOldFallbackData :: "string \<Rightarrow> int \<Rightarrow> world \<Rightarrow> world" where
  "clearOldFallbackData region' now w =
     (if list_ex (\<lambda>q. region q = region' \<and> p_date q \<ge> now - 7 * dayMs
                       \<and> p_source q \<in> set [''gemini-ai'', ''system'']) (pandemicData w)
      then w
      else w\<lparr>pandemicData := filter (\<lambda>q. \<not> (region q = region' \<and> p_date q < now - 7 * dayMs
                                              \<and> p_source q = ''basic-analysis'')) (pandemicData w)\<rparr>)"

text \<open>The weather and air quality arguments of the source only feed the prompt; the reply of
  the reasoning service is \<open>detectPandemicsWithGemini env\<close>. An error thrown in the loop is
  caught: the function then returns the empty list, and what was saved before stays saved.\<close>

definition analyzeAndCreatePandemicData ::
  "environment \<Rightarrow> int \<Rightarrow> string \<Rightarrow> real \<Rightarrow> world \<Rightarrow> pandemic list \<times> world" where
  "analyzeAndCreatePandemicData env now region' surge w =
     (if surge < 40 then ([], w)
      else case detectPandemicsWithGemini env of
        None \<Rightarrow> ([], clearOldFallbackData region' now w)
      | Some geminiAnalysis \<Rightarrow>
          (case detectedPandemics geminiAnalysis of
             None \<Rightarrow> ([], clearOldFallbackData region' now w)
           | Some detected \<Rightarrow>
               if detected = [] then ([], clearOldFallbackData region' now w)
               else (case reconcileAll region' now surge geminiAnalysis detected [] w of
                       (Inl e, w1) \<Rightarrow> ([], w1)
                     | (Inr pandemicRecords, w1) \<Rightarrow> (pandemicRecords, w1))))"

text \<open>The store is read without failure in this model, so the fallback of the catch block
  of \<open>calculatePatientCountFromPandemics\<close> is not reached.\<close>

definition calculatePatientCountFromPandemics :: "int \<Rightarrow> world \<Rightarrow> string \<Rightarrow> real \<Rightarrow> real \<Rightarrow> real" where
  "calculatePatientCountFromPandemics now w region' basePatientCount surge =
     (let totalActiveCases = getTotalActiveCases region' now w;
          estimatedCount = basePatientCount;
          surgeMultiplier = 1 + (surge / 100) * 0.5;
          estimatedCount = real_of_int (Math_round (estimatedCount * surgeMultiplier));
          pandemicContribution = Math_round (real_of_int totalActiveCases * 0.3);
          estimatedCount = estimatedCount + real_of_int pandemicContribution
      in max basePatientCount estimatedCount)"

section \<open>Prediction assembler (predictionService.js)\<close>

text \<open>The air quality reading made up from the weather when none can be had.\<close>

definition estimatedAqi :: "int \<Rightarrow> string \<Rightarrow> weather_reading \<Rightarrow> aqi_reading" where
  "estimatedAqi now cityName weather =
     (let defaultAqi = (if w_temperature weather > 35 then 80
                        else if w_temperature weather > 25 then 60 else 50)
      in \<lparr>a_location = cityName, a_timestamp = now, a_aqi = defaultAqi,
           a_pm25 = real_of_int (Math_round (defaultAqi * 0.6)),
           a_pm10 = real_of_int (Math_round (defaultAqi * 0.8)),
           a_source = ''estimated''\<rparr>)"

text \<open>The block ``if weather is missing, try to fetch it (required)''.\<close>

definition requireWeather ::
  "environment \<Rightarrow> int \<Rightarrow> string \<Rightarrow> world \<Rightarrow> (service_error + weather_reading) \<times> world" where
  "requireWeather env now cityName w =
     (case getLatestWeather cityName w of
        Some weather \<Rightarrow> (Inr weather, w)
      | None \<Rightarrow>
          (case fetchAndStoreWeather env now cityName True w of
             (Inl weatherError, w1) \<Rightarrow> (Inl WeatherRequired, w1)
           | (Inr weather, w1) \<Rightarrow> (Inr weather, w1)))"

text \<open>The block ``if AQI is missing, try to fetch it (optional)''; \<open>aqi\<close> is what
  \<open>getLatestAqi\<close> returned at the start.\<close>

definition resolveAqi ::
  "environment \<Rightarrow> int \<Rightarrow> string \<Rightarrow> aqi_reading option \<Rightarrow> weather_reading \<Rightarrow> world
     \<Rightarrow> aqi_reading \<times> world" where
  "resolveAqi env now cityName aqi' weather w =
     (case aqi' of
        Some reading \<Rightarrow> (reading, w)
      | None \<Rightarrow>
          (case fetchAndStoreAqi env now cityName [] ''India'' True w of
             (Inr reading, w1) \<Rightarrow> (reading, w1)
           | (Inl aqiError, w1) \<Rightarrow> (estimatedAqi now cityName weather, w1)))"

text \<open>\<open>HospitalStats.find({region}).sort({date: -1}).limit(7)\<close> and the average of the
  admissions, 50 when there is no history.\<close>

definition admissionsAverage :: "string \<Rightarrow> world \<Rightarrow> real" where
  "admissionsAverage cityName w =
     (let admissionsLast7d = map admissions
            (take 7 (sortBy (\<lambda>a b. h_date a \<ge> h_date b)
               (filter (\<lambda>s. h_region s = cityName) (hospitalStats w))))
      in if length admissionsLast7d > 0
         then foldl (\<lambda>a b. a + b) 0 admissionsLast7d / real (length admissionsLast7d)
         else 50)"

definition buildFeatures :: "string \<Rightarrow> int \<Rightarrow> aqi_reading \<Rightarrow> weather_reading \<Rightarrow> real \<Rightarrow> features" where
  "buildFeatures cityName date' aqi' weather average =
     \<lparr>city = cityName, date = date', aqi = a_aqi aqi', pm25 = a_pm25 aqi', pm10 = a_pm10 aqi',
      temperature = w_temperature weather, humidity = w_humidity weather,
      windSpeed = w_windSpeed weather, precipitation = w_precipitation weather,
      admissionsLast7dAvg = average, baselineAdmissions = 50, isFestival = False,
      festivalMultiplier = 0\<rparr>"

definition snapshotOf :: "pandemic \<Rightarrow> active_pandemic" where
  "snapshotOf p = \<lparr>ap_diseaseName = diseaseName p, ap_activeCases = activeCases p,
     ap_newCases = newCases p, ap_severity = severity p, ap_transmissionRate = transmissionRate p\<rparr>"

text \<open>
  \<open>generatePrediction\<close>. The date is \<open>None\<close> when the caller passed an invalid Date:
  \<open>date.toISOString()\<close> then throws. The check ``AQI and Weather data are required'' after
  the two blocks cannot fail and is left out.
\<close>

definition generatePrediction ::
  "environment \<Rightarrow> int \<Rightarrow> string \<Rightarrow> int option \<Rightarrow> world \<Rightarrow> (service_error + prediction) \<times> world" where
  "generatePrediction env now cityName date' w =
     (if cityName = [] then (Inl CityNameRequired, w)
      else case requireWeather env now cityName w of
        (Inl e, w1) \<Rightarrow> (Inl e, w1)
      | (Inr weather, w1) \<Rightarrow>
          (case resolveAqi env now cityName (getLatestAqi cityName w) weather w1 of
             (aqi', w2) \<Rightarrow>
               (case date' of
                  None \<Rightarrow> (Inl InvalidDate, w2)
                | Some d \<Rightarrow>
                    let admissionsAvg = admissionsAverage cityName w2;
                        features' = buildFeatures cityName d aqi' weather admissionsAvg;
                        surge = calculateSurgeProbability features'
                    in (case runOperationsAgent env of
                          None \<Rightarrow> (Inl AgentFailed, w2)
                        | Some agentResponse \<Rightarrow>
                            (case analyzeAndCreatePandemicData env now cityName surge w2 of
                               (pandemicRecords, w3) \<Rightarrow>
                                 let active = getActivePandemics cityName 7 now w3;
                                     pandemicMedicines = getRequiredMedicinesFromPandemics cityName now w3;
                                     allMedicines = uniqueInOrder (getMedicinesForDiseases env @ pandemicMedicines);
                                     baselinePatients = 100;
                                     estimated = calculatePatientCountFromPandemics now w3 cityName
                                                   baselinePatients surge;
                                     prediction' =
                                       \<lparr>pr_region = cityName, pr_date = d, surgeProbability = surge,
                                        estimatedPatientCount = estimated,
                                        modelVersion = GEMINI_MODEL env,
                                        inputSnapshot = features',
                                        staff_doctors = Math_ceil (10 * (1 + surge / 100)),
                                        staff_nurses = Math_ceil (20 * (1 + surge / 100)),
                                        staff_supportStaff = Math_ceil (5 * (1 + surge / 100)),
                                        staff_notes = stringOr (staffingPlan agentResponse) ''Standard staffing levels'',
                                        supply_oxygen = Math_ceil (1000 * (1 + surge / 100)),
                                        supply_medicines = allMedicines,
                                        supply_ppe = Math_ceil (500 * (1 + surge / 100)),
                                        supply_notes = stringOr (supplyPlan agentResponse) ''Standard supply levels'',
                                        topFactors =
                                          [(''aqi'', if aqi features' > 100 then 0.3 else 0.1),
                                           (''temperature'', if temperature features' > 35 then 0.25 else 0.1),
                                           (''admissions_trend'', if admissionsAvg > 60 then 0.2 else 0.1)],
                                        suggestedMedicines = allMedicines,
                                        suggestedDiseases = getDiseasesForConditions env,
                                        activePandemics = map snapshotOf active,
                                        weatherImpact = stringOr (agent_weatherImpact agentResponse)
                                                          ''Normal weather conditions'',
                                        aqiImpact = stringOr (agent_aqiImpact agentResponse) ''Normal air quality''\<rparr>
                                 in (Inr prediction', w3\<lparr>predictions := predictions w3 @ [prediction']\<rparr>))))))"

section \<open>Location names (locationUtils.js) and the predict route (predictionRoutes.js)\<close>
















section \<open>Concrete outbreak observations\<close>








text \<open>The record created from an observation of \<open>cases\<close> influenza cases in Mumbai at time 0,
  and the database holding it.\<close>

definition influenzaRecord :: "int \<Rightarrow> pandemic" where
  "influenzaRecord cases = \<lparr>region = ''Mumbai'', p_date = 0, diseaseName = ''Influenza'',
     activeCases = cases, newCases = 5, recovered = 10, deaths = 1, severity = ''moderate'',
     transmissionRate = 1.4, affectedAgeGroups = [''adults'', ''elderly''],
     symptoms = [''fever'', ''cough'', ''fatigue''], requiredMedicines = [''Oseltamivir''],
     p_notes = ''AI-detected based on surge probability and environmental conditions. '',
     p_source = ''gemini-ai''\<rparr>"

definition mumbaiWorld :: "int \<Rightarrow> world" where
  "mumbaiWorld cases = emptyWorld\<lparr>pandemicData := [influenzaRecord cases]\<rparr>"




text \<open>The reconciler touches the outbreak records only.\<close>

definition onlyPandemicsChanged :: "world \<Rightarrow> world \<Rightarrow> bool" where
  "onlyPandemicsChanged w w1 =
     (aqiReadings w1 = aqiReadings w \<and> weatherReadings w1 = weatherReadings w
      \<and> hospitalStats w1 = hospitalStats w \<and> predictions w1 = predictions w
      \<and> providerCalls w1 = providerCalls w)"

section \<open>A prediction for Mumbai without air quality data\<close>

definition mumbaiWeatherReading :: weather_reading where
  "mumbaiWeatherReading = \<lparr>w_location = ''Mumbai'', w_timestamp = 0, w_temperature = 30,
     w_humidity = 70, w_windSpeed = 10, w_precipitation = 0\<rparr>"

text \<open>The database holds a weather reading and an influenza record (80 active cases) for
  Mumbai and no air quality reading.\<close>

definition mumbaiReady :: world where
  "mumbaiReady = (mumbaiWorld 80)\<lparr>weatherReadings := [mumbaiWeatherReading]\<rparr>"

definition mumbaiAfterFetch :: world where
  "mumbaiAfterFetch = mumbaiReady\<lparr>providerCalls := 1\<rparr>"

definition mumbaiEstimate :: aqi_reading where
  "mumbaiEstimate = \<lparr>a_location = ''Mumbai'', a_timestamp = threeHours, a_aqi = 60, a_pm25 = 36,
     a_pm10 = 48, a_source = ''estimated''\<rparr>"

definition mumbaiFeatures :: features where
  "mumbaiFeatures = \<lparr>city = ''Mumbai'', date = threeHours, aqi = 60, pm25 = 36, pm10 = 48,
     temperature = 30, humidity = 70, windSpeed = 10, precipitation = 0,
     admissionsLast7dAvg = 50, baselineAdmissions = 50, isFestival = False,
     festivalMultiplier = 0\<rparr>"

definition mumbaiPrediction :: prediction where
  "mumbaiPrediction =
     \<lparr>pr_region = ''Mumbai'', pr_date = threeHours, surgeProbability = 25,
      estimatedPatientCount = 137, modelVersion = ''gemini-2.0-flash'',
      inputSnapshot = mumbaiFeatures,
      staff_doctors = 13, staff_nurses = 25, staff_supportStaff = 7,
      staff_notes = ''Add one shift'',
      supply_oxygen = 1250, supply_medicines = [''Albuterol Sulfate'', ''Oseltamivir''],
      supply_ppe = 625, supply_notes = ''Standard supply levels'',
      topFactors = [(''aqi'', 0.1), (''temperature'', 0.1), (''admissions_trend'', 0.1)],
      suggestedMedicines = [''Albuterol Sulfate'', ''Oseltamivir''],
      suggestedDiseases = [''Asthma''],
      activePandemics = [snapshotOf (influenzaRecord 80)],
      weatherImpact = ''Normal weather conditions'',
      aqiImpact = ''Unhealthy air''\<rparr>"

definition mumbaiPredicted :: world where
  "mumbaiPredicted = mumbaiAfterFetch\<lparr>predictions := [mumbaiPrediction]\<rparr>"



section \<open>Properties of the risk scorer\<close>







section \<open>Properties of the resilient call executor\<close>

lemma parseInt_seconds_51: "parseInt ''51'' = Some 51"
  by (simp add: parseInt_def isWhiteSpace_def isDigit_def digitValue_def)

lemma parseInt_seconds_0: "parseInt ''0'' = Some 0"
  by (simp add: parseInt_def isWhiteSpace_def isDigit_def digitValue_def)

lemma getRetryDelay_rateLimitError: "getRetryDelay rateLimitError = Millis 51000"
  by (simp add: getRetryDelay_def rateLimitError_def retryInfo_def parseInt_seconds_51)

lemma getRetryDelay_zeroHintError: "getRetryDelay zeroHintError = Millis 0"
  by (simp add: getRetryDelay_def zeroHintError_def retryInfo_def parseInt_seconds_0)

lemma getRetryDelay_serverError: "getRetryDelay serverError = Null"
  by (simp add: getRetryDelay_def serverError_def)

lemma isRetryable_serverError: "isRetryable serverError"
  by (simp add: isRetryable_def serverError_def)

lemma isRateLimit_serverError: "\<not> isRateLimit serverError"
  by (simp add: isRateLimit_def messageIncludes_def serverError_def)

lemma isRetryable_zeroHintError: "isRetryable zeroHintError"
  by (simp add: isRetryable_def zeroHintError_def)

lemma isRateLimit_zeroHintError: "\<not> isRateLimit zeroHintError"
  by (simp add: isRateLimit_def messageIncludes_def zeroHintError_def)

lemma isRateLimit_rateLimitError: "isRateLimit rateLimitError"
  by (simp add: isRateLimit_def rateLimitError_def)

lemma isRetryable_rateLimitError: "isRetryable rateLimitError"
  by (simp add: isRetryable_def isRateLimit_rateLimitError)

lemma not_isRetryable_badRequestError: "\<not> isRetryable badRequestError"
  by (simp add: isRetryable_def isRateLimit_def messageIncludes_def badRequestError_def)

lemma retryLoop_step:
  assumes "apiCall j = Inl e" and "isRetryable e" and "j < maxRetries opts"
  shows "retryLoop apiCall random opts j (exponentialDelay opts j) le j (sleepSchedule apiCall random opts j)
       = retryLoop apiCall random opts (Suc j) (exponentialDelay opts (Suc j)) (Some e) (Suc j)
           (sleepSchedule apiCall random opts (Suc j))"
  using assms
  by (subst retryLoop.simps) (simp add: sleepSchedule_def)

lemma withRetry_advance:
  assumes "\<forall>k<j. \<exists>e. apiCall k = Inl e \<and> isRetryable e" and "j \<le> maxRetries opts"
  shows "\<exists>le. withRetry apiCall random opts
           = retryLoop apiCall random opts j (exponentialDelay opts j) le j
               (sleepSchedule apiCall random opts j)"
  using assms
proof (induction j)
  case 0
  have "withRetry apiCall random opts
      = retryLoop apiCall random opts 0 (exponentialDelay opts 0) None 0 (sleepSchedule apiCall random opts 0)"
    by (simp add: withRetry_def sleepSchedule_def)
  then show ?case by blast
next
  case (Suc j)
  then obtain le where eq: "withRetry apiCall random opts
      = retryLoop apiCall random opts j (exponentialDelay opts j) le j (sleepSchedule apiCall random opts j)"
    by auto
  from Suc.prems obtain e where e: "apiCall j = Inl e" "isRetryable e" by auto
  from Suc.prems have "j < maxRetries opts" by simp
  from retryLoop_step [where apiCall = apiCall and j = j and e = e and opts = opts
      and random = random and le = le] e this eq
  show ?case by metis
qed

lemma retryLoop_returns:
  assumes "apiCall j = Inr v" and "j \<le> maxRetries opts"
  shows "retryLoop apiCall random opts j d le j sl
       = \<lparr>result = Returned v, invocations = j + 1, sleeps = sl\<rparr>"
  using assms by (subst retryLoop.simps) simp

lemma retryLoop_throws:
  assumes "apiCall j = Inl e" and "j = maxRetries opts \<or> (j \<le> maxRetries opts \<and> \<not> isRetryable e)"
  shows "retryLoop apiCall random opts j d le j sl
       = \<lparr>result = Thrown e, invocations = j + 1, sleeps = sl\<rparr>"
  using assms by (subst retryLoop.simps) auto

lemma retryLoop_sleeps_extend:
  "\<exists>rest. sleeps (retryLoop apiCall random opts attempt d le calls sl) = sl @ rest"
proof (induction apiCall random opts attempt d le calls sl rule: retryLoop.induct)
  case (1 apiCall random opts attempt delay lastError calls slept)
  show ?case
  proof (cases "attempt \<le> maxRetries opts")
    case False
    then show ?thesis by (subst retryLoop.simps) simp
  next
    case True
    show ?thesis
    proof (cases "apiCall calls")
      case (Inr v)
      with True show ?thesis by (subst retryLoop.simps) simp
    next
      case (Inl e)
      show ?thesis
      proof (cases "attempt \<ge> maxRetries opts \<or> \<not> isRetryable e")
        case stop: True
        with True Inl show ?thesis by (subst retryLoop.simps) auto
      next
        case go: False
        from "1.IH" [OF True Inl go] obtain rest where
          "sleeps (retryLoop apiCall random opts (attempt + 1)
             (min (delay * backoffMultiplier opts) (maxDelay opts)) (Some e) (calls + 1)
             (slept @ [sleepBeforeRetry e delay (random (length slept)) (maxDelay opts)]))
           = (slept @ [sleepBeforeRetry e delay (random (length slept)) (maxDelay opts)]) @ rest"
          by blast
        with True Inl go show ?thesis by (subst retryLoop.simps) auto
      qed
    qed
  qed
qed

text \<open>
  C3. A closure that fails N times with retryable failures and then succeeds: with
  maxRetries at least N the executor returns the success value after exactly N+1
  invocations; with maxRetries below N it raises the failure of its last invocation
  (number maxRetries + 1). A non-retryable failure met within the retry budget is
  re-raised at once: the invocation that produced it is the last.
\<close>

theorem withRetry_fail_then_succeed:
  "((\<forall>k<N. \<exists>e. apiCall k = Inl e \<and> isRetryable e) \<and> apiCall N = Inr v \<longrightarrow>
      (N \<le> maxRetries opts \<longrightarrow>
         result (withRetry apiCall random opts) = Returned v
         \<and> invocations (withRetry apiCall random opts) = N + 1)
    \<and> (maxRetries opts < N \<longrightarrow>
         result (withRetry apiCall random opts) = Thrown (projl (apiCall (maxRetries opts)))
         \<and> invocations (withRetry apiCall random opts) = maxRetries opts + 1))
   \<and> ((\<forall>k<j. \<exists>e. apiCall k = Inl e \<and> isRetryable e) \<and> j \<le> maxRetries opts
        \<and> apiCall j = Inl err \<and> \<not> isRetryable err \<longrightarrow>
         result (withRetry apiCall random opts) = Thrown err
         \<and> invocations (withRetry apiCall random opts) = j + 1)"
proof (intro conjI impI)
  assume h: "(\<forall>k<N. \<exists>e. apiCall k = Inl e \<and> isRetryable e) \<and> apiCall N = Inr v"
    and le: "N \<le> maxRetries opts"
  from withRetry_advance [of N apiCall opts random] h le obtain le' where
    "withRetry apiCall random opts = retryLoop apiCall random opts N (exponentialDelay opts N) le' N
       (sleepSchedule apiCall random opts N)" by blast
  with retryLoop_returns [of apiCall N v opts] h le
  show "result (withRetry apiCall random opts) = Returned v"
    and "invocations (withRetry apiCall random opts) = N + 1" by simp_all
next
  assume h: "(\<forall>k<N. \<exists>e. apiCall k = Inl e \<and> isRetryable e) \<and> apiCall N = Inr v"
    and lt: "maxRetries opts < N"
  then have "\<forall>k<maxRetries opts. \<exists>e. apiCall k = Inl e \<and> isRetryable e" by auto
  from withRetry_advance [OF this order_refl, of random] obtain le' where eq:
    "withRetry apiCall random opts = retryLoop apiCall random opts (maxRetries opts)
       (exponentialDelay opts (maxRetries opts)) le' (maxRetries opts)
       (sleepSchedule apiCall random opts (maxRetries opts))" by blast
  from h lt obtain e where e: "apiCall (maxRetries opts) = Inl e" by auto
  from retryLoop_throws [of apiCall "maxRetries opts" e opts random] eq e
  show "result (withRetry apiCall random opts) = Thrown (projl (apiCall (maxRetries opts)))"
    and "invocations (withRetry apiCall random opts) = maxRetries opts + 1" by simp_all
next
  assume h: "(\<forall>k<j. \<exists>e. apiCall k = Inl e \<and> isRetryable e) \<and> j \<le> maxRetries opts
        \<and> apiCall j = Inl err \<and> \<not> isRetryable err"
  from withRetry_advance [of j apiCall opts random] h obtain le' where eq:
    "withRetry apiCall random opts = retryLoop apiCall random opts j (exponentialDelay opts j) le' j
       (sleepSchedule apiCall random opts j)" by blast
  from h have e: "apiCall j = Inl err" by simp
  from retryLoop_throws [of apiCall j err opts random] eq h
  show "result (withRetry apiCall random opts) = Thrown err"
    and "invocations (withRetry apiCall random opts) = j + 1" by simp_all
qed

lemma failTwice_fails: "\<forall>k<2. \<exists>e. failTwice k = Inl e \<and> isRetryable e"
  by (auto simp: failTwice_def less_2_cases_iff isRetryable_serverError isRetryable_rateLimitError)

lemma failBadRequest_fails: "\<forall>k<1. \<exists>e. failBadRequest k = Inl e \<and> isRetryable e"
  by (simp add: failBadRequest_def isRetryable_serverError)

theorem withRetry_fail_then_succeed_witness:
  "result (withRetry failTwice noJitter defaultOptions) = Returned 7
   \<and> invocations (withRetry failTwice noJitter defaultOptions) = 3
   \<and> result (withRetry failTwice noJitter (defaultOptions\<lparr>maxRetries := 1\<rparr>)) = Thrown rateLimitError
   \<and> invocations (withRetry failTwice noJitter (defaultOptions\<lparr>maxRetries := 1\<rparr>)) = 2
   \<and> result (withRetry failBadRequest noJitter defaultOptions) = Thrown badRequestError
   \<and> invocations (withRetry failBadRequest noJitter defaultOptions) = 2"
proof -
  have s: "failTwice 2 = Inr 7" by (simp add: failTwice_def)
  have b: "failBadRequest 1 = Inl badRequestError" by (simp add: failBadRequest_def)
  have p: "projl (failTwice 1) = rateLimitError" by (simp add: failTwice_def)
  from withRetry_fail_then_succeed [of 2 failTwice 7 defaultOptions noJitter 0 badRequestError]
    failTwice_fails s
  have 1: "result (withRetry failTwice noJitter defaultOptions) = Returned 7
    \<and> invocations (withRetry failTwice noJitter defaultOptions) = 3"
    by (simp add: defaultOptions_def)
  from withRetry_fail_then_succeed
    [of 2 failTwice 7 "defaultOptions\<lparr>maxRetries := 1\<rparr>" noJitter 0 badRequestError]
    failTwice_fails s p
  have 2: "result (withRetry failTwice noJitter (defaultOptions\<lparr>maxRetries := 1\<rparr>)) = Thrown rateLimitError
    \<and> invocations (withRetry failTwice noJitter (defaultOptions\<lparr>maxRetries := 1\<rparr>)) = 2"
    by (simp add: defaultOptions_def)
  from withRetry_fail_then_succeed [of 2 failBadRequest 7 defaultOptions noJitter 1 badRequestError]
    failBadRequest_fails b not_isRetryable_badRequestError
  have 3: "result (withRetry failBadRequest noJitter defaultOptions) = Thrown badRequestError
    \<and> invocations (withRetry failBadRequest noJitter defaultOptions) = 2"
    by (simp add: defaultOptions_def)
  from 1 2 3 show ?thesis by simp
qed

section \<open>The delay slept between attempts\<close>

lemma sleepBeforeRetry_cases:
  "sleepBeforeRetry error delay rnd m =
     min ((if hintFalsy (getRetryDelay error)
           then (if isRateLimit error then delay * 1.5 else delay)
           else hintValue (getRetryDelay error)) + rnd * 2000) m"
  by (simp add: sleepBeforeRetry_def Let_def)

lemma sleepBeforeRetry_usable_hint:
  assumes "getRetryDelay error \<noteq> Millis 0"
  shows "sleepBeforeRetry error delay rnd m = sleepReference error delay rnd m"
  using assms
  by (cases "getRetryDelay error") (simp_all add: sleepBeforeRetry_cases sleepReference_def)

lemma sleepBeforeRetry_zero_hint:
  assumes "getRetryDelay error = Millis 0"
  shows "sleepBeforeRetry error delay rnd m
       = min ((if isRateLimit error then delay * 1.5 else delay) + rnd * 2000) m"
  using assms by (simp add: sleepBeforeRetry_cases)

lemma withRetry_nth_sleep:
  assumes "\<forall>k\<le>j. \<exists>e. apiCall k = Inl e \<and> isRetryable e" and "j < maxRetries opts"
  shows "j < length (sleeps (withRetry apiCall random opts))
       \<and> sleeps (withRetry apiCall random opts) ! j
           = sleepBeforeRetry (projl (apiCall j)) (exponentialDelay opts j) (random j) (maxDelay opts)"
proof -
  from assms have "\<forall>k<Suc j. \<exists>e. apiCall k = Inl e \<and> isRetryable e" and "Suc j \<le> maxRetries opts"
    by (simp_all add: less_Suc_eq_le)
  from withRetry_advance [OF this, of random] obtain le where
    "withRetry apiCall random opts = retryLoop apiCall random opts (Suc j) (exponentialDelay opts (Suc j))
       le (Suc j) (sleepSchedule apiCall random opts (Suc j))" by blast
  with retryLoop_sleeps_extend [of apiCall random opts "Suc j" "exponentialDelay opts (Suc j)" le "Suc j"
      "sleepSchedule apiCall random opts (Suc j)"]
  obtain rest where s: "sleeps (withRetry apiCall random opts) = sleepSchedule apiCall random opts (Suc j) @ rest"
    by auto
  have l: "length (sleepSchedule apiCall random opts (Suc j)) = Suc j"
    by (simp add: sleepSchedule_def)
  have n: "sleepSchedule apiCall random opts (Suc j) ! j
      = sleepBeforeRetry (projl (apiCall j)) (exponentialDelay opts j) (random j) (maxDelay opts)"
    unfolding sleepSchedule_def by (simp add: nth_append)
  from s l n show ?thesis by (simp add: nth_append)
qed

text \<open>
  C8, as the specification states it, fails: a retry hint of zero seconds is present in the
  error payload, yet the executor sleeps the exponential delay (2000 ms here), not the hint.
\<close>

theorem sleep_zero_hint_counterexample:
  "getRetryDelay zeroHintError = Millis 0
   \<and> sleepBeforeRetry zeroHintError 2000 0 60000 = 2000
   \<and> sleepReference zeroHintError 2000 0 60000 = 0
   \<and> sleepBeforeRetry zeroHintError 2000 0 60000 \<noteq> sleepReference zeroHintError 2000 0 60000"
  by (simp add: sleepBeforeRetry_cases sleepReference_def getRetryDelay_zeroHintError
      isRateLimit_zeroHintError)

text \<open>
  C8, amended. On every retryable failure that is retried, the executor sleeps
  \<open>sleepBeforeRetry\<close> of the failure, the exponential delay in force and a random draw.
  That delay is the provider's retry hint when the payload carries a non-zero one,
  otherwise (no hint, an unparsable hint or a hint of zero) the exponential delay, times
  1.5 for a rate limit; plus a jitter of \<open>random * 2000\<close>, in [0, 2000) ms; the sum is
  clamped to maxDelay. The exponential delay starts at initialDelay and after each retry is
  multiplied by backoffMultiplier and capped at maxDelay.
\<close>

theorem withRetry_sleep_amended:
  "(getRetryDelay error \<noteq> Millis 0 \<longrightarrow>
      sleepBeforeRetry error delay rnd m = sleepReference error delay rnd m)
   \<and> (getRetryDelay error = Millis 0 \<longrightarrow>
      sleepBeforeRetry error delay rnd m
        = min ((if isRateLimit error then delay * 1.5 else delay) + rnd * 2000) m)
   \<and> sleepBeforeRetry error delay rnd m \<le> m
   \<and> (0 \<le> rnd \<and> rnd < 1 \<longrightarrow>
        sleepBeforeRetry error delay 0 m \<le> sleepBeforeRetry error delay rnd m
        \<and> sleepBeforeRetry error delay rnd m \<le> sleepBeforeRetry error delay 0 m + 2000)
   \<and> ((\<forall>k\<le>j. \<exists>e. apiCall k = Inl e \<and> isRetryable e) \<and> j < maxRetries opts \<longrightarrow>
        j < length (sleeps (withRetry apiCall random opts))
        \<and> sleeps (withRetry apiCall random opts) ! j
            = sleepBeforeRetry (projl (apiCall j)) (exponentialDelay opts j) (random j) (maxDelay opts))"
proof (intro conjI impI)
  assume "getRetryDelay error \<noteq> Millis 0"
  then show "sleepBeforeRetry error delay rnd m = sleepReference error delay rnd m"
    by (rule sleepBeforeRetry_usable_hint)
next
  assume "getRetryDelay error = Millis 0"
  then show "sleepBeforeRetry error delay rnd m
        = min ((if isRateLimit error then delay * 1.5 else delay) + rnd * 2000) m"
    by (rule sleepBeforeRetry_zero_hint)
next
  show "sleepBeforeRetry error delay rnd m \<le> m"
    unfolding sleepBeforeRetry_cases by (rule min.cobounded2)
next
  assume r: "0 \<le> rnd \<and> rnd < 1"
  then show "sleepBeforeRetry error delay 0 m \<le> sleepBeforeRetry error delay rnd m"
    unfolding sleepBeforeRetry_cases by (simp add: min_def)
  from r show "sleepBeforeRetry error delay rnd m \<le> sleepBeforeRetry error delay 0 m + 2000"
    unfolding sleepBeforeRetry_cases by (simp add: min_def)
next
  assume h: "(\<forall>k\<le>j. \<exists>e. apiCall k = Inl e \<and> isRetryable e) \<and> j < maxRetries opts"
  then have a: "\<forall>k\<le>j. \<exists>e. apiCall k = Inl e \<and> isRetryable e" and b: "j < maxRetries opts"
    by simp_all
  from withRetry_nth_sleep [OF a b, of random]
  show "j < length (sleeps (withRetry apiCall random opts))"
    and "sleeps (withRetry apiCall random opts) ! j
            = sleepBeforeRetry (projl (apiCall j)) (exponentialDelay opts j) (random j) (maxDelay opts)"
    by simp_all
qed

lemma failTwice_fails_upto: "\<forall>k\<le>1. \<exists>e. failTwice k = Inl e \<and> isRetryable e"
  using failTwice_fails by (simp add: less_Suc_eq_le numeral_2_eq_2)

theorem withRetry_sleep_amended_witness:
  "sleepBeforeRetry rateLimitError 4000 (1 / 2) 60000 = 52000
   \<and> sleepBeforeRetry zeroHintError 2000 (1 / 2) 60000 = 3000
   \<and> sleeps (withRetry failTwice noJitter defaultOptions) ! 1 = 51000"
proof -
  from withRetry_sleep_amended [of rateLimitError 4000 "1 / 2" 60000 1 failTwice defaultOptions noJitter]
  have 1: "sleepBeforeRetry rateLimitError 4000 (1 / 2) 60000 = 52000"
    by (simp add: getRetryDelay_rateLimitError sleepReference_def)
  from withRetry_sleep_amended [of zeroHintError 2000 "1 / 2" 60000 1 failTwice defaultOptions noJitter]
  have 2: "sleepBeforeRetry zeroHintError 2000 (1 / 2) 60000 = 3000"
    by (simp add: getRetryDelay_zeroHintError isRateLimit_zeroHintError)
  have p: "projl (failTwice (Suc 0)) = rateLimitError" by (simp add: failTwice_def)
  have d: "exponentialDelay defaultOptions (Suc 0) = 4000" by (simp add: defaultOptions_def)
  from withRetry_sleep_amended [of rateLimitError 4000 0 60000 1 failTwice defaultOptions noJitter]
    failTwice_fails_upto
  have 3: "sleeps (withRetry failTwice noJitter defaultOptions) ! 1 = 51000"
    by (simp add: p d getRetryDelay_rateLimitError sleepReference_def noJitter_def defaultOptions_def)
  from 1 2 3 show ?thesis by simp
qed

section \<open>Properties of the freshness cache\<close>

lemma fetchAirVisual_calls: "providerCalls (snd (fetchAirVisual env request w)) = providerCalls w + 1"
  by (simp add: fetchAirVisual_def)

lemma fetchAirVisual_world:
  "fetchAirVisual env request w = (reply, w1) \<Longrightarrow> w1 = w\<lparr>providerCalls := providerCalls w + 1\<rparr>"
  by (auto simp: fetchAirVisual_def)

lemma requestAirVisual_world:
  assumes "requestAirVisual env coords w = (r, w1)"
  shows "\<exists>n\<ge>1. w1 = w\<lparr>providerCalls := providerCalls w + n\<rparr>"
proof -
  have one: "\<And>request reply w w'. fetchAirVisual env request w = (reply, w')
      \<Longrightarrow> w' = w\<lparr>providerCalls := providerCalls w + 1\<rparr>"
    by (rule fetchAirVisual_world)
  have two: "\<And>w. (w\<lparr>providerCalls := providerCalls w + 1\<rparr>)\<lparr>providerCalls := providerCalls w + 1 + 1\<rparr>
      = (w\<lparr>providerCalls := providerCalls w + 2\<rparr>::world)"
    by simp
  from assms show ?thesis
    unfolding requestAirVisual_def
    by (auto split: if_splits prod.splits http_reply.splits option.splits dest!: one
        intro: exI [of _ 1] exI [of _ 2])
qed

lemma fetchAndStoreAqi_forced_calls:
  assumes "cityName \<noteq> []" and "truthyString (AIR_VISUAL_API_KEY env)"
  shows "providerCalls (snd (fetchAndStoreAqi env now cityName state country True w)) \<ge> providerCalls w + 1"
proof -
  obtain r w1 where rq: "requestAirVisual env (getCityCoordinates env cityName state country) w = (r, w1)"
    by (cases "requestAirVisual env (getCityCoordinates env cityName state country) w") auto
  from requestAirVisual_world [OF rq] obtain n where n: "n \<ge> 1" "w1 = w\<lparr>providerCalls := providerCalls w + n\<rparr>"
    by blast
  from assms rq n show ?thesis
    by (auto simp: fetchAndStoreAqi_def Let_def split: option.splits prod.splits)
qed

lemma fetchAndStoreWeather_forced_calls:
  assumes "cityName \<noteq> []" and "truthyString (WEATHER_API_KEY env)"
  shows "providerCalls (snd (fetchAndStoreWeather env now cityName True w)) = providerCalls w + 1"
  using assms
  by (auto simp: fetchAndStoreWeather_def fetchOpenWeatherMap_def Let_def
      split: option.splits prod.splits http_reply.splits)

lemma fetchAndStoreAqi_cached:
  assumes "cityName \<noteq> []" and "findLatestAqi cityName w = Some r" and "ageHours now (a_timestamp r) < 6"
  shows "fetchAndStoreAqi env now cityName state country False w = (Inr r, w)"
  using assms by (simp add: fetchAndStoreAqi_def cachedAqi_def)

lemma fetchAndStoreWeather_cached:
  assumes "cityName \<noteq> []" and "findLatestWeather cityName w = Some r" and "ageHours now (w_timestamp r) < 6"
  shows "fetchAndStoreWeather env now cityName False w = (Inr r, w)"
  using assms by (simp add: fetchAndStoreWeather_def cachedWeather_def)

text \<open>What a refresh can change: the provider call count and its own collection.\<close>

lemma fetchAndStoreWeather_frame:
  assumes "fetchAndStoreWeather env now cityName force w = (r, w1)"
  shows "aqiReadings w1 = aqiReadings w \<and> hospitalStats w1 = hospitalStats w
       \<and> pandemicData w1 = pandemicData w \<and> predictions w1 = predictions w
       \<and> providerCalls w1 \<ge> providerCalls w
       \<and> (case r of Inl e \<Rightarrow> weatherReadings w1 = weatherReadings w
                   | Inr reading \<Rightarrow> weatherReadings w1 = weatherReadings w
                        \<or> weatherReadings w1 = weatherReadings w @ [reading])"
  using assms
  by (auto simp: fetchAndStoreWeather_def fetchOpenWeatherMap_def Let_def
      split: option.splits prod.splits http_reply.splits if_splits)

lemma fetchAndStoreAqi_frame:
  assumes "fetchAndStoreAqi env now cityName state country force w = (r, w1)"
  shows "weatherReadings w1 = weatherReadings w \<and> hospitalStats w1 = hospitalStats w
       \<and> pandemicData w1 = pandemicData w \<and> predictions w1 = predictions w
       \<and> providerCalls w1 \<ge> providerCalls w
       \<and> (case r of Inl e \<Rightarrow> aqiReadings w1 = aqiReadings w
                   | Inr reading \<Rightarrow> aqiReadings w1 = aqiReadings w
                        \<or> aqiReadings w1 = aqiReadings w @ [reading])"
proof -
  obtain q w2 where rq: "requestAirVisual env (getCityCoordinates env cityName state country) w = (q, w2)"
    by (cases "requestAirVisual env (getCityCoordinates env cityName state country) w") auto
  from requestAirVisual_world [OF rq] obtain n where n: "w2 = w\<lparr>providerCalls := providerCalls w + n\<rparr>"
    by blast
  from assms rq n show ?thesis
    by (auto simp: fetchAndStoreAqi_def Let_def split: option.splits prod.splits if_splits)
qed

lemma findLatestAqi_delhiWorld: "findLatestAqi ''Delhi'' delhiWorld = Some delhiAqiReading"
  by (simp add: findLatestAqi_def delhiWorld_def emptyWorld_def delhiAqiReading_def)

lemma findLatestWeather_delhiWorld: "findLatestWeather ''Delhi'' delhiWorld = Some delhiWeatherReading"
  by (simp add: findLatestWeather_def delhiWorld_def emptyWorld_def delhiWeatherReading_def)

lemma liveEnv_keys: "truthyString (AIR_VISUAL_API_KEY liveEnv)" "truthyString (WEATHER_API_KEY liveEnv)"
  by (simp_all add: liveEnv_def truthyString_def)

lemma unconfiguredEnv_keys:
  "\<not> truthyString (AIR_VISUAL_API_KEY unconfiguredEnv)" "\<not> truthyString (WEATHER_API_KEY unconfiguredEnv)"
  by (simp_all add: unconfiguredEnv_def truthyString_def)

text \<open>
  C2, as the specification states it, fails in its second half: with no provider key
  configured a forced refresh raises the configuration error and sends no request.
\<close>

theorem forced_refresh_counterexample:
  "fetchAndStoreAqi unconfiguredEnv 0 ''Delhi'' [] ''India'' True emptyWorld
     = (Inl AirVisualKeyNotConfigured, emptyWorld)
   \<and> fetchAndStoreWeather unconfiguredEnv 0 ''Delhi'' True emptyWorld
     = (Inl WeatherKeyNotConfigured, emptyWorld)
   \<and> providerCalls emptyWorld = 0"
  by (simp add: fetchAndStoreAqi_def fetchAndStoreWeather_def unconfiguredEnv_keys emptyWorld_def)

text \<open>
  C2, amended. For every non-empty location name and both signal types: a refresh with
  force = false whose most recent stored Reading is younger than 6 hours returns that Reading
  unchanged, sends no request and leaves the database as it was; a refresh with force = true
  sends at least one request whenever the provider's API key is configured, and with no key
  configured raises the configuration error before any request.
\<close>

theorem refresh_cache_amended:
  "(cityName \<noteq> [] \<and> findLatestAqi cityName w = Some a \<and> ageHours now (a_timestamp a) < 6 \<longrightarrow>
      fetchAndStoreAqi env now cityName state country False w = (Inr a, w))
   \<and> (cityName \<noteq> [] \<and> findLatestWeather cityName w = Some b \<and> ageHours now (w_timestamp b) < 6 \<longrightarrow>
      fetchAndStoreWeather env now cityName False w = (Inr b, w))
   \<and> (cityName \<noteq> [] \<and> truthyString (AIR_VISUAL_API_KEY env) \<longrightarrow>
      providerCalls (snd (fetchAndStoreAqi env now cityName state country True w)) \<ge> providerCalls w + 1)
   \<and> (cityName \<noteq> [] \<and> truthyString (WEATHER_API_KEY env) \<longrightarrow>
      providerCalls (snd (fetchAndStoreWeather env now cityName True w)) \<ge> providerCalls w + 1)
   \<and> (cityName \<noteq> [] \<and> \<not> truthyString (AIR_VISUAL_API_KEY env) \<longrightarrow>
      fetchAndStoreAqi env now cityName state country True w = (Inl AirVisualKeyNotConfigured, w))
   \<and> (cityName \<noteq> [] \<and> \<not> truthyString (WEATHER_API_KEY env) \<longrightarrow>
      fetchAndStoreWeather env now cityName True w = (Inl WeatherKeyNotConfigured, w))"
proof (intro conjI impI)
  assume "cityName \<noteq> [] \<and> \<not> truthyString (AIR_VISUAL_API_KEY env)"
  then show "fetchAndStoreAqi env now cityName state country True w = (Inl AirVisualKeyNotConfigured, w)"
    by (simp add: fetchAndStoreAqi_def)
next
  assume "cityName \<noteq> [] \<and> \<not> truthyString (WEATHER_API_KEY env)"
  then show "fetchAndStoreWeather env now cityName True w = (Inl WeatherKeyNotConfigured, w)"
    by (simp add: fetchAndStoreWeather_def)
next
  assume "cityName \<noteq> [] \<and> findLatestAqi cityName w = Some a \<and> ageHours now (a_timestamp a) < 6"
  then show "fetchAndStoreAqi env now cityName state country False w = (Inr a, w)"
    by (simp add: fetchAndStoreAqi_cached)
next
  assume "cityName \<noteq> [] \<and> findLatestWeather cityName w = Some b \<and> ageHours now (w_timestamp b) < 6"
  then show "fetchAndStoreWeather env now cityName False w = (Inr b, w)"
    by (simp add: fetchAndStoreWeather_cached)
next
  assume "cityName \<noteq> [] \<and> truthyString (AIR_VISUAL_API_KEY env)"
  then have "cityName \<noteq> []" and "truthyString (AIR_VISUAL_API_KEY env)" by simp_all
  then show "providerCalls (snd (fetchAndStoreAqi env now cityName state country True w)) \<ge> providerCalls w + 1"
    by (rule fetchAndStoreAqi_forced_calls)
next
  assume "cityName \<noteq> [] \<and> truthyString (WEATHER_API_KEY env)"
  then have "cityName \<noteq> []" and "truthyString (WEATHER_API_KEY env)" by simp_all
  then have "providerCalls (snd (fetchAndStoreWeather env now cityName True w)) = providerCalls w + 1"
    by (rule fetchAndStoreWeather_forced_calls)
  then show "providerCalls (snd (fetchAndStoreWeather env now cityName True w)) \<ge> providerCalls w + 1"
    by simp
qed

theorem refresh_cache_amended_witness:
  "fetchAndStoreAqi liveEnv threeHours ''Delhi'' [] ''India'' False delhiWorld = (Inr delhiAqiReading, delhiWorld)
   \<and> fetchAndStoreWeather liveEnv threeHours ''Delhi'' False delhiWorld = (Inr delhiWeatherReading, delhiWorld)
   \<and> providerCalls (snd (fetchAndStoreAqi liveEnv threeHours ''Delhi'' [] ''India'' True delhiWorld)) \<ge> 1
   \<and> providerCalls (snd (fetchAndStoreWeather liveEnv threeHours ''Delhi'' True delhiWorld)) \<ge> 1"
proof -
  have age: "ageHours threeHours (a_timestamp delhiAqiReading) < 6"
    "ageHours threeHours (w_timestamp delhiWeatherReading) < 6"
    by (simp_all add: ageHours_def threeHours_def delhiAqiReading_def delhiWeatherReading_def)
  have calls: "providerCalls delhiWorld = 0"
    by (simp add: delhiWorld_def emptyWorld_def)
  from refresh_cache_amended [of "''Delhi''" delhiWorld delhiAqiReading threeHours liveEnv "[]" "''India''"
      delhiWeatherReading]
    findLatestAqi_delhiWorld findLatestWeather_delhiWorld age liveEnv_keys calls
  show ?thesis by simp
qed

section \<open>Properties of the outbreak reconciler\<close>



lemma reconcile_cases:
  assumes "reconcile region' now surge ga p w = (res, w1)"
  shows "(\<exists>c. res = Inr (Some c) \<and> findRecent region' (d_diseaseName p) now w = None
              \<and> newPandemic region' now surge ga p = Some c \<and> validPandemic c
              \<and> w1 = w\<lparr>pandemicData := pandemicData w @ [c]\<rparr>)
       \<or> (\<exists>i m. res = Inr None \<and> findRecent region' (d_diseaseName p) now w = Some i
              \<and> mergedPandemic (pandemicData w ! i) p = Some m \<and> validPandemic m
              \<and> w1 = w\<lparr>pandemicData := (pandemicData w)[i := m]\<rparr>)
       \<or> (\<exists>e. res = Inl e \<and> w1 = w)"
  using assms
  by (auto simp: reconcile_def createPandemicData_def split: option.splits prod.splits sum.splits if_splits)













section \<open>Merging a second observation\<close>



























section \<open>The estimated patient count\<close>
























section \<open>Properties of the prediction assembler\<close>

lemma onlyPandemicsChanged_refl: "onlyPandemicsChanged w w"
  by (simp add: onlyPandemicsChanged_def)

lemma onlyPandemicsChanged_trans:
  "onlyPandemicsChanged w w1 \<Longrightarrow> onlyPandemicsChanged w1 w2 \<Longrightarrow> onlyPandemicsChanged w w2"
  by (simp add: onlyPandemicsChanged_def)

lemma clearOldFallbackData_frame: "onlyPandemicsChanged w (clearOldFallbackData region' now w)"
  by (simp add: clearOldFallbackData_def onlyPandemicsChanged_def)

lemma reconcile_frame:
  assumes "reconcile region' now surge ga p w = (res, w1)"
  shows "onlyPandemicsChanged w w1"
  using reconcile_cases [OF assms] by (auto simp: onlyPandemicsChanged_def)

lemma reconcileAll_frame:
  assumes "reconcileAll region' now surge ga ds acc w = (res, w1)"
  shows "onlyPandemicsChanged w w1"
  using assms
proof (induction ds arbitrary: acc w)
  case Nil
  then show ?case by (auto simp: onlyPandemicsChanged_refl)
next
  case (Cons p ps)
  obtain r wm where step: "reconcile region' now surge ga p w = (r, wm)"
    by (cases "reconcile region' now surge ga p w") auto
  note f = reconcile_frame [OF step]
  show ?case
  proof (cases r)
    case (Inl e)
    with step Cons.prems f show ?thesis by auto
  next
    case (Inr created)
    with step Cons.prems obtain acc' where "reconcileAll region' now surge ga ps acc' wm = (res, w1)"
      by (cases created) auto
    from Cons.IH [OF this] have "onlyPandemicsChanged wm w1" .
    with f show ?thesis by (rule onlyPandemicsChanged_trans)
  qed
qed

lemma analyze_frame:
  assumes "analyzeAndCreatePandemicData env now region' surge w = (recs, w1)"
  shows "onlyPandemicsChanged w w1"
proof (cases "surge \<ge> 40 \<and> (\<exists>ga ds. detectPandemicsWithGemini env = Some ga
                              \<and> detectedPandemics ga = Some ds \<and> ds \<noteq> [])")
  case True
  then obtain ga ds where g: "detectPandemicsWithGemini env = Some ga" "detectedPandemics ga = Some ds"
    "ds \<noteq> []" and s: "\<not> surge < 40" by auto
  obtain res w2 where run: "reconcileAll region' now surge ga ds [] w = (res, w2)"
    by (cases "reconcileAll region' now surge ga ds [] w") auto
  from assms g s run have "w1 = w2"
    by (auto simp: analyzeAndCreatePandemicData_def split: sum.splits)
  with reconcileAll_frame [OF run] show ?thesis by simp
next
  case False
  with assms have "w1 = w \<or> w1 = clearOldFallbackData region' now w"
    by (auto simp: analyzeAndCreatePandemicData_def split: option.splits if_splits)
  with clearOldFallbackData_frame [of w region' now] onlyPandemicsChanged_refl [of w]
  show ?thesis by auto
qed

lemma requireWeather_frame:
  assumes "requireWeather env now cityName w = (r, w1)"
  shows "aqiReadings w1 = aqiReadings w \<and> pandemicData w1 = pandemicData w
       \<and> predictions w1 = predictions w
       \<and> (case r of Inl e \<Rightarrow> e = WeatherRequired \<and> weatherReadings w1 = weatherReadings w | Inr x \<Rightarrow> True)"
proof (cases "getLatestWeather cityName w")
  case (Some x)
  with assms show ?thesis by (auto simp: requireWeather_def)
next
  case None
  obtain q w2 where f: "fetchAndStoreWeather env now cityName True w = (q, w2)"
    by (cases "fetchAndStoreWeather env now cityName True w") auto
  from fetchAndStoreWeather_frame [OF f] assms None f show ?thesis
    by (cases q) (auto simp: requireWeather_def)
qed

lemma generatePrediction_empty: "generatePrediction env now [] d w = (Inl CityNameRequired, w)"
  by (simp add: generatePrediction_def)

lemma generatePrediction_no_weather:
  "cityName \<noteq> [] \<Longrightarrow> requireWeather env now cityName w = (Inl e, w1)
    \<Longrightarrow> generatePrediction env now cityName d w = (Inl e, w1)"
  by (simp add: generatePrediction_def)

text \<open>
  C5. If no weather Reading is stored for a location and the forced fetch from the weather
  provider fails, \<open>generatePrediction\<close> raises an error (for a non-empty name, the error
  ``weather data is required''), and writes nothing: the Prediction store, the weather store,
  the air quality store and the outbreak records are as before.
\<close>

theorem missing_weather_is_fatal:
  "getLatestWeather cityName w = None
     \<and> fst (fetchAndStoreWeather env now cityName True w) = Inl e \<longrightarrow>
   (\<exists>err. fst (generatePrediction env now cityName date' w) = Inl err)
   \<and> (cityName \<noteq> [] \<longrightarrow> fst (generatePrediction env now cityName date' w) = Inl WeatherRequired)
   \<and> predictions (snd (generatePrediction env now cityName date' w)) = predictions w
   \<and> weatherReadings (snd (generatePrediction env now cityName date' w)) = weatherReadings w
   \<and> aqiReadings (snd (generatePrediction env now cityName date' w)) = aqiReadings w
   \<and> pandemicData (snd (generatePrediction env now cityName date' w)) = pandemicData w"
proof
  assume h: "getLatestWeather cityName w = None
     \<and> fst (fetchAndStoreWeather env now cityName True w) = Inl e"
  obtain w2 where f: "fetchAndStoreWeather env now cityName True w = (Inl e, w2)"
    using h by (cases "fetchAndStoreWeather env now cityName True w") auto
  with h have rw: "requireWeather env now cityName w = (Inl WeatherRequired, w2)"
    by (simp add: requireWeather_def)
  from requireWeather_frame [OF rw]
  have fr: "aqiReadings w2 = aqiReadings w" "pandemicData w2 = pandemicData w"
    "predictions w2 = predictions w" "weatherReadings w2 = weatherReadings w" by simp_all
  show "(\<exists>err. fst (generatePrediction env now cityName date' w) = Inl err)
   \<and> (cityName \<noteq> [] \<longrightarrow> fst (generatePrediction env now cityName date' w) = Inl WeatherRequired)
   \<and> predictions (snd (generatePrediction env now cityName date' w)) = predictions w
   \<and> weatherReadings (snd (generatePrediction env now cityName date' w)) = weatherReadings w
   \<and> aqiReadings (snd (generatePrediction env now cityName date' w)) = aqiReadings w
   \<and> pandemicData (snd (generatePrediction env now cityName date' w)) = pandemicData w"
  proof (cases "cityName = []")
    case True
    have "generatePrediction env now cityName date' w = (Inl CityNameRequired, w)"
      unfolding True by (rule generatePrediction_empty)
    with True show ?thesis by simp
  next
    case False
    from generatePrediction_no_weather [OF False rw]
    have "generatePrediction env now cityName date' w = (Inl WeatherRequired, w2)" .
    with fr False show ?thesis by simp
  qed
qed

lemma providersDownEnv_weather:
  "WEATHER_API_KEY providersDownEnv = Some ''ow-key''"
  "openWeatherMap providersDownEnv n c = NetworkError"
  by (simp_all add: providersDownEnv_def liveEnv_def)

lemma fetchOpenWeatherMap_down:
  "fetchOpenWeatherMap providersDownEnv c emptyWorld = (NetworkError, emptyWorld\<lparr>providerCalls := 1\<rparr>)"
  by (simp add: fetchOpenWeatherMap_def providersDownEnv_weather emptyWorld_def)

lemma fetchAndStoreWeather_down:
  "fetchAndStoreWeather providersDownEnv 0 ''Unknown City'' True emptyWorld
     = (Inl FailedToFetchWeather, emptyWorld\<lparr>providerCalls := 1\<rparr>)"
  by (simp add: fetchAndStoreWeather_def providersDownEnv_weather fetchOpenWeatherMap_down truthyString_def)

theorem missing_weather_is_fatal_witness:
  "fst (generatePrediction providersDownEnv 0 ''Unknown City'' (Some 0) emptyWorld) = Inl WeatherRequired
   \<and> predictions (snd (generatePrediction providersDownEnv 0 ''Unknown City'' (Some 0) emptyWorld)) = []
   \<and> weatherReadings (snd (generatePrediction providersDownEnv 0 ''Unknown City'' (Some 0) emptyWorld)) = []"
proof -
  have l: "getLatestWeather ''Unknown City'' emptyWorld = None"
    by (simp add: getLatestWeather_def findLatestWeather_def emptyWorld_def)
  have e: "predictions emptyWorld = []" "weatherReadings emptyWorld = []"
    by (simp_all add: emptyWorld_def)
  from missing_weather_is_fatal [of "''Unknown City''" emptyWorld providersDownEnv 0 FailedToFetchWeather "Some 0"]
    l fetchAndStoreWeather_down e
  show ?thesis by simp
qed

section \<open>The estimated air quality reading\<close>

lemma airVisualDownEnv_fields:
  "AIR_VISUAL_API_KEY airVisualDownEnv = Some ''av-key''"
  "airVisual airVisualDownEnv n request = NetworkError"
  "runOperationsAgent airVisualDownEnv = Some \<lparr>staffingPlan = Some ''Add one shift'', supplyPlan = None,
        agent_weatherImpact = None, agent_aqiImpact = Some ''Unhealthy air''\<rparr>"
  "getDiseasesForConditions airVisualDownEnv = [''Asthma'']"
  "getMedicinesForDiseases airVisualDownEnv = [''Albuterol Sulfate'']"
  "GEMINI_MODEL airVisualDownEnv = ''gemini-2.0-flash''"
  by (simp_all add: airVisualDownEnv_def liveEnv_def)

lemma mumbaiReady_fields:
  "aqiReadings mumbaiReady = []" "weatherReadings mumbaiReady = [mumbaiWeatherReading]"
  "hospitalStats mumbaiReady = []" "pandemicData mumbaiReady = [influenzaRecord 80]"
  "predictions mumbaiReady = []" "providerCalls mumbaiReady = 0"
  by (simp_all add: mumbaiReady_def mumbaiWorld_def emptyWorld_def)

lemma mumbaiAfterFetch_fields:
  "aqiReadings mumbaiAfterFetch = []" "weatherReadings mumbaiAfterFetch = [mumbaiWeatherReading]"
  "hospitalStats mumbaiAfterFetch = []" "pandemicData mumbaiAfterFetch = [influenzaRecord 80]"
  "predictions mumbaiAfterFetch = []" "providerCalls mumbaiAfterFetch = 1"
  by (simp_all add: mumbaiAfterFetch_def mumbaiReady_fields)

lemma requireWeather_mumbai:
  "requireWeather airVisualDownEnv threeHours ''Mumbai'' mumbaiReady = (Inr mumbaiWeatherReading, mumbaiReady)"
  by (simp add: requireWeather_def getLatestWeather_def findLatestWeather_def mumbaiReady_fields
      mumbaiWeatherReading_def)

lemma getLatestAqi_mumbai: "getLatestAqi ''Mumbai'' mumbaiReady = None"
  by (simp add: getLatestAqi_def findLatestAqi_def mumbaiReady_fields)

lemma trim_Mumbai: "trim ''Mumbai'' = ''Mumbai''"
  by (simp add: trim_def isWhiteSpace_def)

lemma getCityCoordinates_mumbai:
  "c_state (getCityCoordinates env ''Mumbai'' [] ''India'') = ''Maharashtra''"
  "c_country (getCityCoordinates env ''Mumbai'' [] ''India'') = ''India''"
  by (simp_all add: getCityCoordinates_def getCityStateMapping_def trim_Mumbai cityStateMap_def mapped_def)

lemma requestAirVisual_mumbai:
  assumes "c_state coords \<noteq> []" and "c_country coords \<noteq> []"
  shows "requestAirVisual airVisualDownEnv coords mumbaiReady = (None, mumbaiAfterFetch)"
  using assms
  by (simp add: requestAirVisual_def fetchAirVisual_def airVisualDownEnv_fields mumbaiAfterFetch_def
      mumbaiReady_fields)

lemma fetchAndStoreAqi_mumbai:
  "fetchAndStoreAqi airVisualDownEnv threeHours ''Mumbai'' [] ''India'' True mumbaiReady
     = (Inl FailedToFetchAqi, mumbaiAfterFetch)"
proof -
  have "requestAirVisual airVisualDownEnv (getCityCoordinates airVisualDownEnv ''Mumbai'' [] ''India'')
      mumbaiReady = (None, mumbaiAfterFetch)"
    by (rule requestAirVisual_mumbai) (simp_all add: getCityCoordinates_mumbai)
  then show ?thesis
    by (simp add: fetchAndStoreAqi_def airVisualDownEnv_fields truthyString_def)
qed

lemma estimatedAqi_mumbai: "estimatedAqi threeHours ''Mumbai'' mumbaiWeatherReading = mumbaiEstimate"
  by (simp add: estimatedAqi_def mumbaiWeatherReading_def mumbaiEstimate_def Math_round_def Let_def)

lemma resolveAqi_mumbai:
  "resolveAqi airVisualDownEnv threeHours ''Mumbai'' None mumbaiWeatherReading mumbaiReady
     = (mumbaiEstimate, mumbaiAfterFetch)"
  by (simp add: resolveAqi_def fetchAndStoreAqi_mumbai estimatedAqi_mumbai)

lemma admissionsAverage_mumbai: "admissionsAverage ''Mumbai'' mumbaiAfterFetch = 50"
  by (simp add: admissionsAverage_def mumbaiAfterFetch_fields sortBy_def)

lemma buildFeatures_mumbai:
  "buildFeatures ''Mumbai'' threeHours mumbaiEstimate mumbaiWeatherReading 50 = mumbaiFeatures"
  by (simp add: buildFeatures_def mumbaiEstimate_def mumbaiWeatherReading_def mumbaiFeatures_def)

lemma surge_mumbai: "calculateSurgeProbability mumbaiFeatures = 25"
  by (simp add: calculateSurgeProbability_def mumbaiFeatures_def Let_def)

lemma analyze_mumbai:
  "analyzeAndCreatePandemicData airVisualDownEnv threeHours ''Mumbai'' 25 mumbaiAfterFetch
     = ([], mumbaiAfterFetch)"
  by (simp add: analyzeAndCreatePandemicData_def)

lemma activeQuery_influenzaRecord: "activeQuery ''Mumbai'' 7 threeHours (influenzaRecord 80)"
  by (simp add: activeQuery_def influenzaRecord_def threeHours_def dayMs_def significantSeverity_def)

lemma getActivePandemics_mumbai:
  "getActivePandemics ''Mumbai'' 7 threeHours mumbaiAfterFetch = [influenzaRecord 80]"
  by (simp add: getActivePandemics_def mumbaiAfterFetch_fields activeQuery_influenzaRecord sortBy_def
      groupByDisease_def)

lemma medicines_mumbai:
  "getRequiredMedicinesFromPandemics ''Mumbai'' threeHours mumbaiAfterFetch = [''Oseltamivir'']"
  by (simp add: getRequiredMedicinesFromPandemics_def getActivePandemics_mumbai uniqueInOrder_def
      influenzaRecord_def)

lemma patientCount_mumbai:
  "calculatePatientCountFromPandemics threeHours mumbaiAfterFetch ''Mumbai'' 100 25 = 137"
proof -
  have t: "getTotalActiveCases ''Mumbai'' threeHours mumbaiAfterFetch = 80"
    by (simp add: getTotalActiveCases_def getActivePandemics_mumbai influenzaRecord_def)
  show ?thesis
    by (simp add: calculatePatientCountFromPandemics_def t Let_def Math_round_def)
qed

lemma staffing_mumbai:
  "Math_ceil (25 / 2) = 13" "Math_ceil 25 = 25" "Math_ceil (25 / 4) = 7"
  "Math_ceil 1250 = 1250" "Math_ceil 625 = 625"
  by (simp_all add: Math_ceil_def)

lemma generatePrediction_mumbai:
  "generatePrediction airVisualDownEnv threeHours ''Mumbai'' (Some threeHours) mumbaiReady
     = (Inr mumbaiPrediction, mumbaiPredicted)"
proof -
  have f: "aqi mumbaiFeatures = 60" "temperature mumbaiFeatures = 30"
    by (simp_all add: mumbaiFeatures_def)
  have m: "uniqueInOrder [''Albuterol Sulfate'', ''Oseltamivir''] = [''Albuterol Sulfate'', ''Oseltamivir'']"
    by (simp add: uniqueInOrder_def)
  show ?thesis
    unfolding generatePrediction_def
    by (simp add: requireWeather_mumbai getLatestAqi_mumbai resolveAqi_mumbai admissionsAverage_mumbai
        buildFeatures_mumbai surge_mumbai analyze_mumbai getActivePandemics_mumbai medicines_mumbai
        patientCount_mumbai airVisualDownEnv_fields staffing_mumbai f m stringOr_def
        mumbaiPrediction_def mumbaiPredicted_def mumbaiAfterFetch_fields Let_def)
qed

lemma resolveAqi_estimate:
  assumes "fetchAndStoreAqi env now cityName [] ''India'' True w1 = (Inl e, w2)"
  shows "resolveAqi env now cityName None weather w1 = (estimatedAqi now cityName weather, w2)"
  using assms by (simp add: resolveAqi_def)

lemma generatePrediction_after_weather:
  assumes c: "cityName \<noteq> []"
    and rw: "requireWeather env now cityName w = (Inr weather, w1)"
    and ra: "resolveAqi env now cityName (getLatestAqi cityName w) weather w1 = (reading, w2)"
  shows "(date' = None \<longrightarrow> generatePrediction env now cityName date' w = (Inl InvalidDate, w2))
       \<and> (date' \<noteq> None \<and> runOperationsAgent env = None \<longrightarrow>
            generatePrediction env now cityName date' w = (Inl AgentFailed, w2))
       \<and> (\<forall>d agent. date' = Some d \<and> runOperationsAgent env = Some agent \<longrightarrow>
            (\<exists>pr recs w3. generatePrediction env now cityName date' w
                             = (Inr pr, w3\<lparr>predictions := predictions w3 @ [pr]\<rparr>)
               \<and> inputSnapshot pr = buildFeatures cityName d reading weather (admissionsAverage cityName w2)
               \<and> analyzeAndCreatePandemicData env now cityName (surgeProbability pr) w2 = (recs, w3)))"
proof (intro conjI impI allI)
  assume "date' = None"
  with c rw ra show "generatePrediction env now cityName date' w = (Inl InvalidDate, w2)"
    by (simp add: generatePrediction_def)
next
  assume "date' \<noteq> None \<and> runOperationsAgent env = None"
  with c rw ra show "generatePrediction env now cityName date' w = (Inl AgentFailed, w2)"
    by (auto simp: generatePrediction_def Let_def)
next
  fix d agent
  assume h: "date' = Some d \<and> runOperationsAgent env = Some agent"
  let ?f = "buildFeatures cityName d reading weather (admissionsAverage cityName w2)"
  obtain recs w3 where an:
    "analyzeAndCreatePandemicData env now cityName (calculateSurgeProbability ?f) w2 = (recs, w3)"
    by (cases "analyzeAndCreatePandemicData env now cityName (calculateSurgeProbability ?f) w2") auto
  from c rw ra h an obtain pr where
    "generatePrediction env now cityName date' w = (Inr pr, w3\<lparr>predictions := predictions w3 @ [pr]\<rparr>)"
    and "inputSnapshot pr = ?f" and "surgeProbability pr = calculateSurgeProbability ?f"
    by (auto simp: generatePrediction_def Let_def)
  with an show "\<exists>pr recs w3. generatePrediction env now cityName date' w
                             = (Inr pr, w3\<lparr>predictions := predictions w3 @ [pr]\<rparr>)
               \<and> inputSnapshot pr = ?f
               \<and> analyzeAndCreatePandemicData env now cityName (surgeProbability pr) w2 = (recs, w3)"
    by auto
qed

lemma buildFeatures_aqi:
  "aqi (buildFeatures c d reading weather avg) = a_aqi reading"
  "pm25 (buildFeatures c d reading weather avg) = a_pm25 reading"
  "pm10 (buildFeatures c d reading weather avg) = a_pm10 reading"
  by (simp_all add: buildFeatures_def)

lemma estimatedAqi_values:
  "a_source (estimatedAqi now cityName weather) = ''estimated''"
  "a_aqi (estimatedAqi now cityName weather)
     = (if w_temperature weather > 35 then 80 else if w_temperature weather > 25 then 60 else 50)"
  "a_pm25 (estimatedAqi now cityName weather)
     = real_of_int (Math_round (0.6 * a_aqi (estimatedAqi now cityName weather)))"
  "a_pm10 (estimatedAqi now cityName weather)
     = real_of_int (Math_round (0.8 * a_aqi (estimatedAqi now cityName weather)))"
  by (simp_all add: estimatedAqi_def Let_def mult.commute)

text \<open>
  C6, as the specification states it, fails in its last part: with no air quality Reading
  stored for Mumbai and the provider down, the prediction is made from an estimate
  (aqi 60 at 30 degrees), and the air quality store is still empty afterwards.
\<close>

theorem estimate_not_persisted_counterexample:
  "getLatestAqi ''Mumbai'' mumbaiReady = None
   \<and> fetchAndStoreAqi airVisualDownEnv threeHours ''Mumbai'' [] ''India'' True mumbaiReady
       = (Inl FailedToFetchAqi, mumbaiAfterFetch)
   \<and> generatePrediction airVisualDownEnv threeHours ''Mumbai'' (Some threeHours) mumbaiReady
       = (Inr mumbaiPrediction, mumbaiPredicted)
   \<and> aqi (inputSnapshot mumbaiPrediction) = 60
   \<and> aqiReadings mumbaiPredicted = []"
proof (intro conjI)
  show "getLatestAqi ''Mumbai'' mumbaiReady = None"
    by (rule getLatestAqi_mumbai)
  show "fetchAndStoreAqi airVisualDownEnv threeHours ''Mumbai'' [] ''India'' True mumbaiReady
       = (Inl FailedToFetchAqi, mumbaiAfterFetch)"
    by (rule fetchAndStoreAqi_mumbai)
  show "generatePrediction airVisualDownEnv threeHours ''Mumbai'' (Some threeHours) mumbaiReady
       = (Inr mumbaiPrediction, mumbaiPredicted)"
    by (rule generatePrediction_mumbai)
  show "aqi (inputSnapshot mumbaiPrediction) = 60"
    by (simp add: mumbaiPrediction_def mumbaiFeatures_def)
  show "aqiReadings mumbaiPredicted = []"
    by (simp add: mumbaiPredicted_def mumbaiAfterFetch_fields)
qed

text \<open>
  C6, amended. If no air-quality Reading is stored for a location and the forced fetch from
  the AQI provider fails while a weather Reading is available, \<open>generatePrediction\<close> goes on
  with a heuristic estimate derived from the weather Reading (aqi 80 if temperature > 35,
  60 if temperature > 25, else 50; pm25 = round(0.6 x aqi), pm10 = round(0.8 x aqi)), tagged
  source = "estimated". The missing signal raises no error: the run ends in a Prediction
  built on the estimate whenever the date is valid and the operations agent answers, and
  otherwise in the error of that later step. The estimate is used for this prediction
  only: the AQI store is left exactly as it was.
\<close>

theorem estimated_aqi_amended:
  "cityName \<noteq> [] \<and> getLatestAqi cityName w = None
     \<and> requireWeather env now cityName w = (Inr weather, w1)
     \<and> fst (fetchAndStoreAqi env now cityName [] ''India'' True w1) = Inl e \<longrightarrow>
   fst (resolveAqi env now cityName None weather w1) = estimatedAqi now cityName weather
   \<and> a_source (estimatedAqi now cityName weather) = ''estimated''
   \<and> a_aqi (estimatedAqi now cityName weather)
       = (if w_temperature weather > 35 then 80 else if w_temperature weather > 25 then 60 else 50)
   \<and> a_pm25 (estimatedAqi now cityName weather)
       = real_of_int (Math_round (0.6 * a_aqi (estimatedAqi now cityName weather)))
   \<and> a_pm10 (estimatedAqi now cityName weather)
       = real_of_int (Math_round (0.8 * a_aqi (estimatedAqi now cityName weather)))
   \<and> aqiReadings (snd (generatePrediction env now cityName date' w)) = aqiReadings w
   \<and> (fst (generatePrediction env now cityName date' w) = Inl InvalidDate
       \<or> fst (generatePrediction env now cityName date' w) = Inl AgentFailed
       \<or> (\<exists>pr. fst (generatePrediction env now cityName date' w) = Inr pr
             \<and> aqi (inputSnapshot pr) = a_aqi (estimatedAqi now cityName weather)
             \<and> pm25 (inputSnapshot pr) = a_pm25 (estimatedAqi now cityName weather)
             \<and> pm10 (inputSnapshot pr) = a_pm10 (estimatedAqi now cityName weather)))
   \<and> (date' \<noteq> None \<and> runOperationsAgent env \<noteq> None \<longrightarrow>
        (\<exists>pr. fst (generatePrediction env now cityName date' w) = Inr pr))"
proof
  assume h: "cityName \<noteq> [] \<and> getLatestAqi cityName w = None
     \<and> requireWeather env now cityName w = (Inr weather, w1)
     \<and> fst (fetchAndStoreAqi env now cityName [] ''India'' True w1) = Inl e"
  then have c: "cityName \<noteq> []" and la: "getLatestAqi cityName w = None"
    and rw: "requireWeather env now cityName w = (Inr weather, w1)" by simp_all
  from h obtain w2 where f: "fetchAndStoreAqi env now cityName [] ''India'' True w1 = (Inl e, w2)"
    by (cases "fetchAndStoreAqi env now cityName [] ''India'' True w1") auto
  note ra = resolveAqi_estimate [OF f, of weather]
  from ra la have ra': "resolveAqi env now cityName (getLatestAqi cityName w) weather w1
      = (estimatedAqi now cityName weather, w2)" by simp
  from requireWeather_frame [OF rw] have a1: "aqiReadings w1 = aqiReadings w" by simp
  from fetchAndStoreAqi_frame [OF f] have a2: "aqiReadings w2 = aqiReadings w1" by simp
  note g = generatePrediction_after_weather [OF c rw ra', of date']
  have main: "aqiReadings (snd (generatePrediction env now cityName date' w)) = aqiReadings w
   \<and> (fst (generatePrediction env now cityName date' w) = Inl InvalidDate
       \<or> fst (generatePrediction env now cityName date' w) = Inl AgentFailed
       \<or> (\<exists>pr. fst (generatePrediction env now cityName date' w) = Inr pr
             \<and> aqi (inputSnapshot pr) = a_aqi (estimatedAqi now cityName weather)
             \<and> pm25 (inputSnapshot pr) = a_pm25 (estimatedAqi now cityName weather)
             \<and> pm10 (inputSnapshot pr) = a_pm10 (estimatedAqi now cityName weather)))
   \<and> (date' \<noteq> None \<and> runOperationsAgent env \<noteq> None \<longrightarrow>
        (\<exists>pr. fst (generatePrediction env now cityName date' w) = Inr pr))"
  proof (cases date')
    case None
    with g have "generatePrediction env now cityName date' w = (Inl InvalidDate, w2)" by blast
    with a1 a2 None show ?thesis by simp
  next
    case (Some d)
    show ?thesis
    proof (cases "runOperationsAgent env")
      case None
      with g Some have "generatePrediction env now cityName date' w = (Inl AgentFailed, w2)" by auto
      with a1 a2 None show ?thesis by simp
    next
      case (Some agent)
      with g \<open>date' = Some d\<close> obtain pr recs w3 where
        gp: "generatePrediction env now cityName date' w = (Inr pr, w3\<lparr>predictions := predictions w3 @ [pr]\<rparr>)"
        and sn: "inputSnapshot pr
          = buildFeatures cityName d (estimatedAqi now cityName weather) weather (admissionsAverage cityName w2)"
        and an: "analyzeAndCreatePandemicData env now cityName (surgeProbability pr) w2 = (recs, w3)"
        by blast
      from analyze_frame [OF an] have a3: "aqiReadings w3 = aqiReadings w2"
        by (simp add: onlyPandemicsChanged_def)
      from gp sn a1 a2 a3 show ?thesis by (simp add: buildFeatures_aqi)
    qed
  qed
  from ra main show "fst (resolveAqi env now cityName None weather w1) = estimatedAqi now cityName weather
   \<and> a_source (estimatedAqi now cityName weather) = ''estimated''
   \<and> a_aqi (estimatedAqi now cityName weather)
       = (if w_temperature weather > 35 then 80 else if w_temperature weather > 25 then 60 else 50)
   \<and> a_pm25 (estimatedAqi now cityName weather)
       = real_of_int (Math_round (0.6 * a_aqi (estimatedAqi now cityName weather)))
   \<and> a_pm10 (estimatedAqi now cityName weather)
       = real_of_int (Math_round (0.8 * a_aqi (estimatedAqi now cityName weather)))
   \<and> aqiReadings (snd (generatePrediction env now cityName date' w)) = aqiReadings w
   \<and> (fst (generatePrediction env now cityName date' w) = Inl InvalidDate
       \<or> fst (generatePrediction env now cityName date' w) = Inl AgentFailed
       \<or> (\<exists>pr. fst (generatePrediction env now cityName date' w) = Inr pr
             \<and> aqi (inputSnapshot pr) = a_aqi (estimatedAqi now cityName weather)
             \<and> pm25 (inputSnapshot pr) = a_pm25 (estimatedAqi now cityName weather)
             \<and> pm10 (inputSnapshot pr) = a_pm10 (estimatedAqi now cityName weather)))
   \<and> (date' \<noteq> None \<and> runOperationsAgent env \<noteq> None \<longrightarrow>
        (\<exists>pr. fst (generatePrediction env now cityName date' w) = Inr pr))"
    using estimatedAqi_values [of now cityName weather] by simp
qed

theorem estimated_aqi_amended_witness:
  "fst (resolveAqi airVisualDownEnv threeHours ''Mumbai'' None mumbaiWeatherReading mumbaiReady)
     = estimatedAqi threeHours ''Mumbai'' mumbaiWeatherReading
   \<and> a_aqi (estimatedAqi threeHours ''Mumbai'' mumbaiWeatherReading) = 60
   \<and> a_source (estimatedAqi threeHours ''Mumbai'' mumbaiWeatherReading) = ''estimated''
   \<and> aqiReadings (snd (generatePrediction airVisualDownEnv threeHours ''Mumbai'' (Some threeHours) mumbaiReady))
       = []"
proof -
  have pre: "''Mumbai'' \<noteq> [] \<and> getLatestAqi ''Mumbai'' mumbaiReady = None
     \<and> requireWeather airVisualDownEnv threeHours ''Mumbai'' mumbaiReady = (Inr mumbaiWeatherReading, mumbaiReady)
     \<and> fst (fetchAndStoreAqi airVisualDownEnv threeHours ''Mumbai'' [] ''India'' True mumbaiReady)
         = Inl FailedToFetchAqi"
    by (simp add: getLatestAqi_mumbai requireWeather_mumbai fetchAndStoreAqi_mumbai)
  have t: "w_temperature mumbaiWeatherReading = 30"
    by (simp add: mumbaiWeatherReading_def)
  from estimated_aqi_amended [of "''Mumbai''" mumbaiReady airVisualDownEnv threeHours
      mumbaiWeatherReading mumbaiReady FailedToFetchAqi "Some threeHours"] pre
  show ?thesis by (simp add: t mumbaiReady_fields)
qed



section \<open>Validation of location names in the predict route\<close>




















end
